theory Spec2Isabelle
  imports Complex_Main "HOL-Library.Word"
begin

section \<open>Strings of the host language\<close>

text \<open>
  A JavaScript string is a sequence of 16-bit code units; \<open>length\<close>, \<open>slice\<close>,
  \<open>includes\<close> and the regular expressions of the server (none has the \<open>u\<close> flag)
  all work on code units. Basic Latin literals are written through \<open>js\<close>, other
  characters by their code unit.
\<close>

type_synonym unit16 = "16 word"
type_synonym jsstring = "unit16 list"

definition js :: "string \<Rightarrow> jsstring" where
  "js s = map of_char s"

fun startsWith :: "jsstring \<Rightarrow> jsstring \<Rightarrow> bool" where
  "startsWith s [] = True"
| "startsWith [] (k # ks) = False"
| "startsWith (c # cs) (k # ks) = (c = k \<and> startsWith cs ks)"

text \<open>\<open>s.includes(k)\<close>: \<open>k\<close> occurs in \<open>s\<close> at some index (the empty string always does).\<close>

fun str_includes :: "jsstring \<Rightarrow> jsstring \<Rightarrow> bool" where
  "str_includes [] k = startsWith [] k"
| "str_includes (c # cs) k = (startsWith (c # cs) k \<or> str_includes cs k)"

text \<open>\<open>s.slice(0, n)\<close> for a non-negative \<open>n\<close>.\<close>

definition slice0 :: "nat \<Rightarrow> 'a list \<Rightarrow> 'a list" where
  "slice0 n s = take n s"

text \<open>The character class of the source's range test, from U+4E00 to U+9FA5.\<close>

definition is_chinese :: "unit16 \<Rightarrow> bool" where
  "is_chinese c = (0x4E00 \<le> c \<and> c \<le> 0x9FA5)"

text \<open>
  White space and line terminators of ECMAScript: what \<open>trim\<close> strips and what
  \<open>\s\<close> matches.
\<close>

definition is_space :: "unit16 \<Rightarrow> bool" where
  "is_space c = (c \<in> {0x09, 0x0A, 0x0B, 0x0C, 0x0D, 0x20, 0xA0, 0x1680, 0x2028, 0x2029,
                       0x202F, 0x205F, 0x3000, 0xFEFF} \<or> (0x2000 \<le> c \<and> c \<le> 0x200A))"

definition trim :: "jsstring \<Rightarrow> jsstring" where
  "trim s = rev (dropWhile is_space (rev (dropWhile is_space s)))"

text \<open>
  \<open>toLowerCase\<close> on a string of Basic Latin and CJK code units. On other scripts the
  host applies the Unicode case mappings; the scorer therefore takes the host's
  \<open>toLowerCase\<close> as a parameter, and this function is what it is on the concrete
  inputs evaluated below.
\<close>

definition toLowerCase_latin :: "jsstring \<Rightarrow> jsstring" where
  "toLowerCase_latin s = map (\<lambda>c. if 0x41 \<le> c \<and> c \<le> 0x5A then c + 0x20 else c) s"

section \<open>Static tables\<close>

text \<open>
  An object is kept as the list of its own properties in insertion order, which is the
  order of \<open>Object.entries\<close> (no key below is an array index). In an object literal a
  repeated key keeps its first position and takes the last value.
\<close>

fun obj_set :: "(jsstring \<times> 'v) list \<Rightarrow> jsstring \<Rightarrow> 'v \<Rightarrow> (jsstring \<times> 'v) list" where
  "obj_set [] k v = [(k, v)]"
| "obj_set ((k', v') # ps) k v =
     (if k' = k then (k', v) # ps else (k', v') # obj_set ps k v)"

definition object_literal :: "(jsstring \<times> 'v) list \<Rightarrow> (jsstring \<times> 'v) list" where
  "object_literal props = foldl (\<lambda>obj (k, v). obj_set obj k v) [] props"

definition VIOLENCE_KEYWORDS_literal :: "(jsstring \<times> int) list" where
  "VIOLENCE_KEYWORDS_literal = [
    (js ''kill'', 95), (js ''murder'', 100), (js ''shoot'', 90), (js ''stab'', 85),
    (js ''attack'', 80), (js ''massacre'', 100), (js ''terrorist'', 100), (js ''bomb'', 100),
    (js ''explosion'', 90), (js ''rape'', 100), (js ''assault'', 85), (js ''abuse'', 75),
    (js ''rampage'', 95), (js ''threaten'', 75), (js ''threat'', 70), (js ''revenge'', 80),
    (js ''deserve'', 95), (js ''wipe out'', 90), (js ''eliminate'', 85),
    (js ''end it all'', 95), (js ''going to kill'', 100), (js ''want them dead'', 100),
    (js ''make them pay'', 95), (js ''going to shoot'', 100), (js ''knife attack'', 90),
    (js ''gun'', 70), (js ''knife'', 65), (js ''weapon'', 75), (js ''arsenal'', 80),
    (js ''firearm'', 75), (js ''rifle'', 65), (js ''ammunition'', 70), (js ''pistol'', 70),
    (js ''shotgun'', 75), (js ''suicide'', 90), (js ''kill myself'', 95),
    (js ''end it all'', 95), (js ''want to die'', 90), (js ''no reason to live'', 90),
    (js ''give up'', 80), (js ''no point'', 75), (js ''hack'', 50), (js ''breach'', 55),
    (js ''ddos'', 60), (js ''malware'', 55), (js ''ransomware'', 65), (js ''phishing'', 45),
    (js ''cyberattack'', 70), (js ''exploit'', 50), (js ''backdoor'', 55), (js ''rob'', 70),
    (js ''steal'', 65), (js ''burglary'', 60), (js ''vandalism'', 45), (js ''fraud'', 55),
    (js ''extortion'', 70), (js ''embezzlement'', 60), (js ''scam'', 45), (js ''theft'', 55),
    (js ''harass'', 60), (js ''stalk'', 70), (js ''bullying'', 55), (js ''intimidate'', 65),
    (js ''doxxing'', 55), (js ''swatting'', 75), (js ''threats'', 70), (js ''deepfake'', 55),
    (js ''ai attack'', 70), (js ''bioweapon'', 90), (js ''mass poison'', 95),
    (js ''radiation'', 85), (js ''chemical weapon'', 90), (js ''mass shooting'', 100),
    (js ''vehicle ramming'', 85), (js ''gas attack'', 90), (js ''nerve gas'', 100),
    (js ''school shooting'', 100), (js ''workplace violence'', 85),
    (js ''domestic terrorism'', 90), (js ''lone wolf'', 85), (js ''ied'', 85),
    (js ''pipe bomb'', 90), (js ''voice clone'', 65), (js ''deep voice'', 65),
    (js ''synthetic identity'', 60), (js ''ai fraud'', 70), (js ''deepfake extortion'', 75),
    (js ''ai generated abuse'', 75), (js ''acid attack'', 90), (js ''machete'', 80),
    (js ''crossbow'', 75), (js ''crossbow attack'', 85), (js ''drone attack'', 85),
    (js ''drone swarm'', 85), (js ''poison water'', 90), ([0x6740, 0x4EBA], 95),
    ([0x6740], 90), ([0x6740, 0x6389], 95), ([0x6740, 0x4E86, 0x4ED6], 100),
    ([0x5AE9, 0x6B7B], 95), ([0x70B8, 0x5F39], 90), ([0x70B8, 0x836F], 95),
    ([0x5F15, 0x7206], 90), ([0x6050, 0x6016, 0x5206, 0x5B50], 95),
    ([0x6050, 0x6016, 0x88AD, 0x51FB], 100), ([0x67AA], 60), ([0x5200], 55),
    ([0x6B66, 0x5668], 65), ([0x5B50, 0x5F39], 60), ([0x67AA, 0x652F], 70), ([0x5077], 50),
    ([0x62A2], 65), ([0x76D7, 0x7A83], 60), ([0x8BC8, 0x9A97], 55), ([0x62A2, 0x52AB], 70),
    ([0x5A01, 0x80C1], 70), ([0x6050, 0x5413], 70), ([0x9A9A, 0x6270], 60),
    ([0x81EA, 0x6740], 90), ([0x8F7B, 0x751F], 85), ([0x60F3, 0x6B7B], 85),
    ([0x62A5, 0x590D], 75), ([0x7ED1, 0x67B6], 85), ([0x52D2, 0x7D22], 70),
    ([0x6495, 0x7968], 100), ([0x6295, 0x6BD2], 85), ([0x7EB5, 0x706B], 85),
    ([0x8D29, 0x6BD2], 80), ([0x6BD2, 0x54C1], 65), ([0x7F51, 0x66B4], 65),
    ([0x4EBA, 0x8089, 0x641C, 0x7D22], 70), ([0x5F00, 0x76D2], 75),
    ([0x7F51, 0x7EDC, 0x66B4, 0x529B], 65), ([0x7535, 0x4FE1, 0x8BC8, 0x9A97], 65),
    ([0x6740, 0x732A, 0x76D8], 70), (js ''ai'' @ [0x8BC8, 0x9A97], 65),
    (js ''ai'' @ [0x653B, 0x51FB], 70), ([0x6DF1, 0x4F2A], 55),
    ([0x6DF1, 0x5EA6, 0x4F2A, 0x9020], 60), ([0x8BED, 0x97F3, 0x514B, 0x9686], 65),
    ([0x5F04, 0x6B7B], 95), ([0x641E, 0x6B7B], 90), ([0x780D, 0x6B7B], 90),
    ([0x6EBA, 0x6B7B], 85), ([0x70E7, 0x6B7B], 85), ([0x786B, 0x9178], 90),
    ([0x519C, 0x836F], 80), ([0x6C30, 0x5316, 0x7269], 95), ([0x94CA], 95),
    ([0x9ED1, 0x793E, 0x4F1A], 70), ([0x5E2E, 0x6D3E], 65), ([0x8D4C, 0x573A], 60),
    ([0x6D17, 0x94B1], 65), ([0x519B, 0x706B], 80), ([0x6821, 0x56ED], 60),
    ([0x5E7C, 0x513F, 0x56ED], 70), ([0x5C0F, 0x5B66], 60), ([0x4E2D, 0x5B66], 55),
    (js ''train attack'', 85), (js ''metro attack'', 80), (js ''subway attack'', 80),
    (js ''airport threat'', 85), (js ''bridge attack'', 85), (js ''tunnel attack'', 80),
    (js ''ai impersonation'', 70), (js ''faceless'', 65), (js ''cloaked'', 60),
    (js ''train attack'', 85), (js ''metro attack'', 80), (js ''electric shock'', 75),
    (js ''taser attack'', 80), (js ''package bomb'', 90), (js ''letter bomb'', 90),
    (js ''engineered virus'', 100), (js ''synthetic biology'', 90),
    (js ''autonomous weapon'', 85), (js ''killer robot'', 90)
  ]"

definition VIOLENCE_KEYWORDS :: "(jsstring \<times> int) list" where
  "VIOLENCE_KEYWORDS = object_literal VIOLENCE_KEYWORDS_literal"

definition CATEGORIES :: "(jsstring \<times> jsstring list) list" where
  "CATEGORIES = object_literal [
    (js ''physical_violence'', [js ''kill'', js ''murder'', js ''shoot'', js ''stab'',
       js ''attack'', js ''beat'', js ''hurt'', js ''assault'', js ''rampage'',
       js ''massacre'']),
    (js ''terrorism'', [js ''terrorist'', js ''massacre'', js ''bomb'', js ''explosive'',
       js ''bioweapon'', js ''chemical weapon'', js ''radiation'']),
    (js ''self_harm'', [js ''suicide'', js ''kill myself'', js ''end it all'',
       js ''want to die'', js ''give up'', js ''no reason to live'']),
    (js ''harassment'', [js ''harass'', js ''stalk'', js ''bully'', js ''threaten'',
       js ''doxxing'', js ''swatting'', js ''intimidate'']),
    (js ''property_crime'', [js ''rob'', js ''steal'', js ''burglary'', js ''fraud'',
       js ''extortion'', js ''scam'', js ''embezzlement'']),
    (js ''cyber_threat'', [js ''hack'', js ''breach'', js ''ddos'', js ''malware'',
       js ''ransomware'', js ''cyberattack'', js ''phishing'']),
    (js ''ai_threat'', [js ''deepfake'', js ''ai attack'', js ''voice clone'',
       js ''ai'' @ [0x8BC8, 0x9A97]])
  ]"

section \<open>Regular expressions of the pattern set\<close>

text \<open>
  The pattern rules use literal characters, \<open>.\<close>, \<open>\d\<close>, \<open>\s\<close>, alternation, groups,
  and \<open>*\<close>, \<open>+\<close>, \<open>?\<close>; the three quantifiers are greedy, and \<open>*\<close> and \<open>+\<close> are only
  ever applied to a single-character atom. All rules carry the \<open>i\<close> flag and none the
  \<open>u\<close> flag. \<open>a+\<close> is written \<open>Seq (One a) (Many a)\<close>.
\<close>

datatype atom = Lit unit16 | Dot | Digit | Space

datatype regex =
    Eps
  | One atom
  | Many atom
  | Seq regex regex
  | Alt regex regex
  | Opt regex

text \<open>
  Case-insensitive comparison of a text unit with a pattern character. The pattern
  characters are Basic Latin letters, digits, the space and CJK ideographs; for these the
  canonicalisation of ECMAScript (upper-casing, never from a non-ASCII unit to an ASCII
  one) identifies exactly a Basic Latin letter with its other case.
\<close>

definition canonicalize :: "unit16 \<Rightarrow> unit16" where
  "canonicalize c = (if 0x61 \<le> c \<and> c \<le> 0x7A then c - 0x20 else c)"

fun accepts :: "atom \<Rightarrow> unit16 \<Rightarrow> bool" where
  "accepts (Lit p) c = (canonicalize c = canonicalize p)"
| "accepts Dot c = (c \<notin> {0x0A, 0x0D, 0x2028, 0x2029})"
| "accepts Digit c = (0x30 \<le> c \<and> c \<le> 0x39)"
| "accepts Space c = is_space c"

text \<open>
  The backtracking matcher, in the continuation style of the language definition:
  \<open>k\<close> is what remains to be matched after the current term, and the first success in
  priority order wins.
\<close>

fun many :: "atom \<Rightarrow> jsstring \<Rightarrow> (jsstring \<Rightarrow> 'a option) \<Rightarrow> 'a option" where
  "many a [] k = k []"
| "many a (c # cs) k =
     (if accepts a c
      then (case many a cs k of Some r \<Rightarrow> Some r | None \<Rightarrow> k (c # cs))
      else k (c # cs))"

fun matcher :: "regex \<Rightarrow> jsstring \<Rightarrow> (jsstring \<Rightarrow> 'a option) \<Rightarrow> 'a option" where
  "matcher Eps s k = k s"
| "matcher (One a) s k =
     (case s of [] \<Rightarrow> None | c # cs \<Rightarrow> if accepts a c then k cs else None)"
| "matcher (Many a) s k = many a s k"
| "matcher (Seq r1 r2) s k = matcher r1 s (\<lambda>s'. matcher r2 s' k)"
| "matcher (Alt r1 r2) s k =
     (case matcher r1 s k of Some r \<Rightarrow> Some r | None \<Rightarrow> matcher r2 s k)"
| "matcher (Opt r) s k =
     (case matcher r s k of Some r \<Rightarrow> Some r | None \<Rightarrow> k s)"

text \<open>
  \<open>text.match(regex)\<close> for a regex without the \<open>g\<close> flag: the match at the leftmost
  start index where the matcher succeeds; the result is \<open>match[0]\<close>, or \<open>None\<close> for
  \<open>null\<close>.
\<close>

fun str_match :: "jsstring \<Rightarrow> regex \<Rightarrow> jsstring option" where
  "str_match [] r = (case matcher r [] Some of Some rest \<Rightarrow> Some [] | None \<Rightarrow> None)"
| "str_match (c # cs) r =
     (case matcher r (c # cs) Some of
        Some rest \<Rightarrow> Some (take (length (c # cs) - length rest) (c # cs))
      | None \<Rightarrow> str_match cs r)"

fun word :: "jsstring \<Rightarrow> regex" where
  "word [] = Eps"
| "word [c] = One (Lit c)"
| "word (c # cs) = Seq (One (Lit c)) (word cs)"

fun seqs :: "regex list \<Rightarrow> regex" where
  "seqs [] = Eps"
| "seqs [r] = r"
| "seqs (r # rs) = Seq r (seqs rs)"

fun alts :: "regex list \<Rightarrow> regex" where
  "alts [] = Eps"
| "alts [r] = r"
| "alts (r # rs) = Alt r (alts rs)"

abbreviation chars :: "string \<Rightarrow> regex" where
  "chars s \<equiv> word (js s)"

abbreviation dot_star :: regex where
  "dot_star \<equiv> Many Dot"

datatype pattern_type = urgency | targeted | planning | emotional

definition PATTERNS :: "(regex \<times> pattern_type \<times> int) list" where
  "PATTERNS = [
    (alts [chars ''right now'', chars ''tonight'', seqs [chars ''today'', dot_star, chars ''going'']], urgency, 15),
    (alts [chars ''this weekend'', seqs [chars ''tomorrow'', dot_star, chars ''will'']], urgency, 10),
    (seqs [chars ''at '', One Digit, Many Digit, Many Space, alts [chars ''am'', chars ''pm'']],
       urgency, 15),
    (seqs [chars ''in '', One Digit, Many Digit, Many Space, chars ''hour'', Opt (chars ''s'')],
       urgency, 15),
    (alts [chars ''counting down'', seqs [chars ''final'', dot_star, chars ''warning''],
           seqs [chars ''time'', dot_star, chars ''running'']], urgency, 20),
    (seqs [chars ''my '', alts [chars ''boss'', chars ''colleague'', chars ''teacher'', chars ''neighbor'',
           chars ''ex'']], targeted, 20),
    (alts [seqs [chars ''they'', dot_star, chars ''deserve''], chars ''will make them pay''], targeted, 25),
    (seqs [chars ''at '', alts [chars ''school'', chars ''work'', chars ''home'']], targeted, 20),
    (alts [chars ''going to buy'', chars ''just ordered'', chars ''already have''], planning, 25),
    (alts [seqs [chars ''drive'', dot_star, alts [chars ''truck'', chars ''car''], dot_star, chars ''into''],
           seqs [chars ''crowd'', dot_star, chars ''people'']], planning, 35),
    (seqs [chars ''picked '', alts [chars ''up'', chars ''bought'', chars ''got'']], planning, 20),
    (seqs [chars ''know'', dot_star, chars ''where'', dot_star, alts [chars ''live'', chars ''work'']], planning, 25),
    (alts [seqs [chars ''no'', dot_star, chars ''reason'', dot_star, chars ''live''],
           seqs [chars ''nothing'', dot_star, chars ''matter'']], emotional, 25),
    (seqs [chars ''nobody'', dot_star, alts [chars ''care'', chars ''understand'']], emotional, 20),
    (seqs [chars ''better'', dot_star, chars ''without'', dot_star, chars ''me''], emotional, 40),
    (seqs [alts [word [0x8001, 0x5E08], word [0x540C, 0x5B66], word [0x540C, 0x4E8B],
                 word [0x8001, 0x677F]], dot_star,
           alts [word [0x8BE5], word [0x6D3B, 0x8BE5], word [0x6B7B]]], targeted, 30),
    (seqs [alts [word [0x51C6, 0x5907], word [0x8BA1, 0x5212], word [0x6253, 0x7B97]], dot_star,
           alts [word [0x6740], word [0x780D], word [0x5F04]]], planning, 35),
    (seqs [chars ''final'', dot_star, alts [chars ''goodbye'', chars ''message'', chars ''note'']], emotional, 50),
    (seqs [chars ''nobody'', dot_star, alts [chars ''miss'', chars ''remember'', chars ''care'']], emotional, 30),
    (seqs [chars ''always'', dot_star, alts [chars ''tired'', chars ''exhausted'', chars ''depressed'']],
       emotional, 25),
    (seqs [alts [chars ''3d'', chars ''ghost''], dot_star, alts [chars ''print'', chars ''gun'']], planning, 30),
    (seqs [chars ''synthetic'', dot_star, alts [chars ''virus'', chars ''biology'']], planning, 40)
  ]"

section \<open>The text scorer\<close>

datatype level = low | medium | high | critical

record found_threat =
  keyword :: jsstring
  score :: int
  category :: jsstring
  language :: jsstring

record detected_pattern =
  pattern_type :: pattern_type
  matched :: jsstring

record analysis_result =
  text_preview :: jsstring
  threat_score :: int
  threat_level :: level
  found_threats :: "found_threat list"
  detected_patterns :: "detected_pattern list"
  analyzed_at :: jsstring

text \<open>The inner loop over \<open>CATEGORIES\<close>: the first category that lists the keyword.\<close>

fun find_category :: "(jsstring \<times> jsstring list) list \<Rightarrow> jsstring \<Rightarrow> jsstring" where
  "find_category [] kw = js ''general_threat''"
| "find_category ((cat, kws) # rest) kw =
     (if kw \<in> set kws then cat else find_category rest kw)"

definition keyword_entry :: "jsstring \<Rightarrow> int \<Rightarrow> found_threat" where
  "keyword_entry kw sc =
     \<lparr>keyword = kw, score = sc, category = find_category CATEGORIES kw,
      language = (if list_ex is_chinese kw then js ''zh'' else js ''en'')\<rparr>"

text \<open>The keyword loop, carrying \<open>foundThreats\<close> and \<open>totalScore\<close>.\<close>

fun keyword_loop ::
  "jsstring \<Rightarrow> (jsstring \<times> int) list \<Rightarrow> found_threat list \<times> int \<Rightarrow> found_threat list \<times> int"
where
  "keyword_loop textLower [] acc = acc"
| "keyword_loop textLower ((kw, sc) # rest) (foundThreats, totalScore) =
     (if str_includes textLower kw
      then keyword_loop textLower rest (foundThreats @ [keyword_entry kw sc], totalScore + sc)
      else keyword_loop textLower rest (foundThreats, totalScore))"

text \<open>The pattern loop, carrying \<open>patternScore\<close> and \<open>detectedPatterns\<close>.\<close>

fun pattern_loop ::
  "jsstring \<Rightarrow> (regex \<times> pattern_type \<times> int) list \<Rightarrow> int \<times> detected_pattern list
     \<Rightarrow> int \<times> detected_pattern list"
where
  "pattern_loop txt [] acc = acc"
| "pattern_loop txt ((rx, ty, sc) # rest) (patternScore, detectedPatterns) =
     (case str_match txt rx of
        Some m \<Rightarrow> pattern_loop txt rest
                    (patternScore + sc, detectedPatterns @ [\<lparr>pattern_type = ty, matched = m\<rparr>])
      | None \<Rightarrow> pattern_loop txt rest (patternScore, detectedPatterns))"

definition char_entry :: "unit16 \<Rightarrow> found_threat" where
  "char_entry c =
     \<lparr>keyword = [c], score = 80, category = js ''general_threat'', language = js ''zh''\<rparr>"

definition level_of_score :: "int \<Rightarrow> level" where
  "level_of_score finalScore =
     (if finalScore \<ge> 80 then critical
      else if finalScore \<ge> 60 then high
      else if finalScore \<ge> 40 then medium
      else low)"

text \<open>
  \<open>analyzeText\<close>. \<open>toLowerCase\<close> is the host's \<open>String.prototype.toLowerCase\<close> and
  \<open>now\<close> the value of \<open>new Date().toISOString()\<close> at the call.
\<close>

definition analyzeText :: "(jsstring \<Rightarrow> jsstring) \<Rightarrow> jsstring \<Rightarrow> jsstring \<Rightarrow> analysis_result" where
  "analyzeText toLowerCase now txt =
     (let textLower = toLowerCase txt;
          (foundThreats, totalScore) = keyword_loop textLower VIOLENCE_KEYWORDS ([], 0);
          (patternScore, detectedPatterns) = pattern_loop txt PATTERNS (0, []);
          totalScore = totalScore + patternScore;
          chineseChars = filter is_chinese txt;
          (foundThreats, totalScore) =
            (if chineseChars \<noteq> []
             then (foundThreats @ map char_entry (slice0 10 chineseChars),
                   totalScore + min (int (length chineseChars) * 10) 50)
             else (foundThreats, totalScore));
          finalScore = min totalScore 100
      in \<lparr>text_preview = (if length txt > 150 then slice0 150 txt @ js ''...'' else txt),
          threat_score = finalScore,
          threat_level = level_of_score finalScore,
          found_threats = slice0 10 foundThreats,
          detected_patterns = detectedPatterns,
          analyzed_at = now\<rparr>)"

text \<open>
  The keyword matches of a lowered text in the iteration order of the lexicon, the pattern
  rules that match a text, and the script bonus, as the specification names them.
\<close>

definition matching_keywords :: "jsstring \<Rightarrow> (jsstring \<times> int) list" where
  "matching_keywords lowered =
     filter (\<lambda>(kw, sc). str_includes lowered kw) VIOLENCE_KEYWORDS"

definition matching_patterns :: "jsstring \<Rightarrow> (regex \<times> pattern_type \<times> int) list" where
  "matching_patterns txt = filter (\<lambda>(rx, ty, sc). str_match txt rx \<noteq> None) PATTERNS"

definition script_bonus :: "jsstring \<Rightarrow> int" where
  "script_bonus txt = min (int (length (filter is_chinese txt)) * 10) 50"

text \<open>
  The block CJK Unified Ideographs of Unicode, U+4E00 to U+9FFF, which the specification
  names; the source tests the narrower range of \<open>is_chinese\<close>.
\<close>

definition in_cjk_block :: "unit16 \<Rightarrow> bool" where
  "in_cjk_block c = (0x4E00 \<le> c \<and> c \<le> 0x9FFF)"

text \<open>
  The shape the data model of the specification gives an analysis: a score in
  \<open>[0, 100]\<close>, the level of that score, at most ten entries of evidence, and a preview of
  at most 150 characters and the marker.
\<close>

definition well_formed :: "analysis_result \<Rightarrow> bool" where
  "well_formed r =
     (0 \<le> threat_score r \<and> threat_score r \<le> 100 \<and>
      threat_level r = level_of_score (threat_score r) \<and>
      length (found_threats r) \<le> 10 \<and> length (text_preview r) \<le> 153)"

section \<open>The single-submission probability\<close>

text \<open>
  Labels that the server only emits (\<open>risk_level\<close>, \<open>prediction\<close>, \<open>citywide_risk\<close>,
  \<open>confidence\<close>) stay strings. \<open>hour\<close> is the value of \<open>new Date().getHours()\<close>.
  \<open>baseProb\<close> is a rational: \<open>1.3\<close> is read as \<open>13/10\<close>, and the double product
  \<open>n * 20 * 1.3\<close> is exactly \<open>26 * n\<close> for every list length that fits a double, so both
  agree. \<open>Math.round\<close> is \<open>\<lfloor>x + 1/2\<rfloor>\<close>, which is \<open>round\<close>.
\<close>

record probability_result =
  probability :: int
  risk_level :: jsstring
  prediction :: jsstring

definition calculateProbability :: "nat \<Rightarrow> 'a list \<Rightarrow> probability_result" where
  "calculateProbability hour threats =
     (if length threats = 0
      then \<lparr>probability = 0, risk_level = js ''minimal'', prediction = js ''No threat signals''\<rparr>
      else
        let baseProb = (of_nat (length threats) * 20 :: rat);
            baseProb = (if hour < 6 \<or> hour > 23 then baseProb * (13 / 10) else baseProb);
            finalProb = min baseProb 100
        in \<lparr>probability = round finalProb,
            risk_level = (if finalProb \<ge> 80 then js ''extreme''
                          else if finalProb \<ge> 60 then js ''high'' else js ''moderate''),
            prediction = (if finalProb \<ge> 60 then js ''HIGH CRIME PROBABILITY''
                          else js ''Low risk'')\<rparr>)"

section \<open>The threat log and the request handler\<close>

text \<open>
  The analysis object of a log record: the two seeded records carry only a level, a score
  and evidence without a language; records pushed by the handler carry the result of
  \<open>analyzeText\<close>.
\<close>

datatype log_analysis =
    Demo_analysis level int "(jsstring \<times> int \<times> jsstring) list"
  | Api_analysis analysis_result

fun logged_level :: "log_analysis \<Rightarrow> level" where
  "logged_level (Demo_analysis l sc found) = l"
| "logged_level (Api_analysis a) = threat_level a"

record threat_record =
  number :: jsstring
  source :: jsstring
  original_text :: jsstring
  analysis :: log_analysis
  detected_at :: jsstring

text \<open>
  \<open>s.substr(start, n)\<close> for non-negative arguments, and \<open>toUpperCase\<close> on the alphabet of
  \<open>Number.prototype.toString(36)\<close> (digits, \<open>a\<close> to \<open>z\<close> and the point).
\<close>

definition substr :: "nat \<Rightarrow> nat \<Rightarrow> jsstring \<Rightarrow> jsstring" where
  "substr start n s = take n (drop start s)"

definition toUpperCase_latin :: "jsstring \<Rightarrow> jsstring" where
  "toUpperCase_latin s = map (\<lambda>c. if 0x61 \<le> c \<and> c \<le> 0x7A then c - 0x20 else c) s"

text \<open>
  \<open>"N-" + Math.random().toString(36).substr(2, 8).toUpperCase()\<close>, as a function of the
  string \<open>Math.random().toString(36)\<close>. Each occurrence of the expression draws its own
  random number.
\<close>

definition threat_number :: "jsstring \<Rightarrow> jsstring" where
  "threat_number random36 = js ''N-'' @ toUpperCase_latin (substr 2 8 random36)"

text \<open>
  \<open>demoThreats\<close>, pushed on the log when the module is loaded; the arguments are the two
  random strings and the two time stamps drawn there.
\<close>

definition demoThreats :: "jsstring \<Rightarrow> jsstring \<Rightarrow> jsstring \<Rightarrow> jsstring \<Rightarrow> threat_record list" where
  "demoThreats random1 random2 date1 date2 =
     [\<lparr>number = threat_number random1, source = js ''twitter'',
       original_text = js ''I'' @ [0x27] @ js ''m going to kill my boss tomorrow'',
       analysis = Demo_analysis critical 95 [(js ''kill'', 95, js ''physical_violence'')],
       detected_at = date1\<rparr>,
      \<lparr>number = threat_number random2, source = js ''reddit'',
       original_text = js ''This school deserves what happens this weekend'',
       analysis = Demo_analysis high 75 [(js ''deserves'', 75, js ''terrorism'')],
       detected_at = date2\<rparr>]"

record statistics =
  total_threats :: nat
  by_level :: "level \<Rightarrow> nat"

record threats_data =
  threats :: "threat_record list"
  total :: nat

record prediction_data =
  citywide_risk :: jsstring
  predicted_crimes :: nat
  hotspots :: "jsstring list"
  confidence :: jsstring

record state =
  threatLog :: "threat_record list"
  cache_stats :: "(statistics \<times> int) option"
  cache_pred :: "(prediction_data \<times> int) option"
  cache_threats :: "(threats_data \<times> int) option"
  requestCounts :: "(jsstring \<times> int list) list"

definition initial_state :: "jsstring \<Rightarrow> jsstring \<Rightarrow> jsstring \<Rightarrow> jsstring \<Rightarrow> state" where
  "initial_state random1 random2 date1 date2 =
     \<lparr>threatLog = [] @ demoThreats random1 random2 date1 date2,
      cache_stats = None, cache_pred = None, cache_threats = None, requestCounts = []\<rparr>"

definition CACHE_TTL :: int where "CACHE_TTL = 5000"
definition RATE_LIMIT_WINDOW :: int where "RATE_LIMIT_WINDOW = 60000"
definition RATE_LIMIT_MAX :: nat where "RATE_LIMIT_MAX = 30"

text \<open>
  \<open>timestamp < windowStart\<close> in the cleaning loop of \<open>checkRateLimit\<close>, where
  \<open>timestamp\<close> is the array stored for a client: the array is converted to the string of
  its elements joined by commas and then to a number, which is \<open>0\<close> for the empty array,
  the element for a single one and \<open>NaN\<close> (comparing false) otherwise.
\<close>

fun array_less :: "int list \<Rightarrow> int \<Rightarrow> bool" where
  "array_less [] bound = (0 < bound)"
| "array_less [t] bound = (t < bound)"
| "array_less (t # t' # ts) bound = False"

text \<open>
  \<open>checkRateLimit\<close>: the map \<open>requestCounts\<close> is the list of its entries in insertion
  order; \<open>now\<close> is the value of \<open>Date.now()\<close>. The result is the flag and the new map.
\<close>

definition checkRateLimit ::
  "int \<Rightarrow> jsstring \<Rightarrow> (jsstring \<times> int list) list \<Rightarrow> bool \<times> (jsstring \<times> int list) list"
where
  "checkRateLimit now ip counts =
     (let windowStart = now - RATE_LIMIT_WINDOW;
          counts = filter (\<lambda>(key, timestamp). \<not> array_less timestamp windowStart) counts;
          times = (case map_of counts ip of Some ts \<Rightarrow> ts | None \<Rightarrow> []);
          count = length (filter (\<lambda>t. t > windowStart) times)
      in if count \<ge> RATE_LIMIT_MAX then (False, counts)
         else (True, obj_set counts ip (times @ [now])))"

text \<open>
  A request as the handler reads it. The body is given by what \<open>JSON.parse\<close> and the
  destructuring of \<open>text\<close> make of it: they throw, or \<open>text\<close> is not a string, or it is
  one.
\<close>

datatype body = Invalid_json | No_text | Text jsstring

record request =
  url :: jsstring
  http_method :: jsstring \<comment> \<open>\<open>req.method\<close>\<close>
  x_forwarded_for :: "jsstring option"
  remoteAddress :: "jsstring option"
  body :: body

text \<open>What the host supplies during one call of the handler.\<close>

record host =
  now_rate :: int \<comment> \<open>\<open>Date.now()\<close> in \<open>checkRateLimit\<close>\<close>
  now_check :: int \<comment> \<open>\<open>Date.now()\<close> in the freshness test of a cache entry\<close>
  now_store :: int \<comment> \<open>\<open>Date.now()\<close> when a cache entry is written\<close>
  date_analyzed :: jsstring \<comment> \<open>\<open>new Date().toISOString()\<close> in \<open>analyzeText\<close>\<close>
  date_detected :: jsstring \<comment> \<open>\<open>new Date().toISOString()\<close> for the log record\<close>
  hour :: nat \<comment> \<open>\<open>new Date().getHours()\<close>\<close>
  random_log :: jsstring \<comment> \<open>\<open>Math.random().toString(36)\<close> for the log record\<close>
  random_id :: jsstring \<comment> \<open>the same for the \<open>id\<close> of the response\<close>
  random_number :: jsstring \<comment> \<open>the same for the \<open>number\<close> of the response\<close>

datatype response =
    Rate_limited \<comment> \<open>status 429\<close>
  | Options_ok \<comment> \<open>status 200, empty body\<close>
  | Root_info
  | Health
  | Bad_request jsstring \<comment> \<open>status 400 and its message\<close>
  | Server_error \<comment> \<open>status 500\<close>
  | Analyzed jsstring jsstring analysis_result probability_result
      \<comment> \<open>\<open>id\<close>, \<open>number\<close>, \<open>analysis\<close>, \<open>prediction\<close>\<close>
  | Statistics statistics
  | Threats threats_data
  | Prediction prediction_data
  | Not_found \<comment> \<open>status 404\<close>

definition clientIp :: "request \<Rightarrow> jsstring" where
  "clientIp req =
     (case x_forwarded_for req of
        Some a \<Rightarrow> if a \<noteq> [] then a
                  else (case remoteAddress req of
                          Some b \<Rightarrow> if b \<noteq> [] then b else js ''unknown''
                        | None \<Rightarrow> js ''unknown'')
      | None \<Rightarrow> (case remoteAddress req of
                   Some b \<Rightarrow> if b \<noteq> [] then b else js ''unknown''
                 | None \<Rightarrow> js ''unknown''))"

definition is_risk :: "level \<Rightarrow> bool" where
  "is_risk l = (l \<in> set [critical, high])"

text \<open>The body of the \<open>/analyze\<close> route.\<close>

definition analyze_route ::
  "(jsstring \<Rightarrow> jsstring) \<Rightarrow> host \<Rightarrow> body \<Rightarrow> state \<Rightarrow> response \<times> state"
where
  "analyze_route toLowerCase h b st =
     (case b of
        Invalid_json \<Rightarrow> (Server_error, st)
      | No_text \<Rightarrow> (Bad_request (js ''Text input required''), st)
      | Text txt \<Rightarrow>
          if txt = [] \<or> length (trim txt) = 0
          then (Bad_request (js ''Text input required''), st)
          else if length txt > 10000
          then (Bad_request (js ''Text too long (max 10000 chars)''), st)
          else
            let sanitizedText = slice0 5000 (trim txt);
                analysis = analyzeText toLowerCase (date_analyzed h) sanitizedText;
                st = (if is_risk (threat_level analysis)
                      then st\<lparr>threatLog := threatLog st @
                             [\<lparr>number = threat_number (random_log h), source = js ''api'',
                               original_text = txt, analysis = Api_analysis analysis,
                               detected_at = date_detected h\<rparr>]\<rparr>
                      else st);
                prediction = calculateProbability (hour h)
                               (if is_risk (threat_level analysis) then [analysis] else [])
            in (Analyzed (substr 2 8 (random_id h)) (threat_number (random_number h))
                  analysis prediction, st))"

text \<open>The data computed by the three read routes when the cache entry is not fresh.\<close>

definition statistics_of :: "threat_record list \<Rightarrow> statistics" where
  "statistics_of entries =
     \<lparr>total_threats = length entries,
      by_level = foldl (\<lambda>byLevel t. byLevel(logged_level (analysis t) :=
                                        byLevel (logged_level (analysis t)) + 1))
                   (\<lambda>l. 0) entries\<rparr>"

definition threats_of :: "threat_record list \<Rightarrow> threats_data" where
  "threats_of entries = \<lparr>threats = drop (length entries - 20) entries, total = length entries\<rparr>"

definition prediction_of :: "threat_record list \<Rightarrow> prediction_data" where
  "prediction_of entries =
     (let riskCount = length (filter (\<lambda>t. is_risk (logged_level (analysis t))) entries)
      in \<lparr>citywide_risk = (if riskCount > 0 then js ''elevated'' else js ''low''),
          predicted_crimes = riskCount * 3,
          hotspots = (if riskCount > 0 then [js ''downtown'', js ''transit hub''] else []),
          confidence = (if riskCount > 2 then js ''high'' else js ''medium'')\<rparr>)"

text \<open>The data of a cache entry that is present and fresh.\<close>

definition cached :: "host \<Rightarrow> ('d \<times> int) option \<Rightarrow> 'd option" where
  "cached h entry =
     (case entry of
        None \<Rightarrow> None
      | Some (d, ts) \<Rightarrow> if now_check h - ts < CACHE_TTL then Some d else None)"

text \<open>
  \<open>handler\<close>. A call is taken as one step on the module state: the callbacks of a request
  run to completion one after the other, and nothing else touches the state in between
  the steps that matter here.
\<close>

definition handler ::
  "(jsstring \<Rightarrow> jsstring) \<Rightarrow> host \<Rightarrow> request \<Rightarrow> state \<Rightarrow> response \<times> state"
where
  "handler toLowerCase h req st =
     (let path = url req;
          (allowed, st) =
            (if path = js ''/analyze''
             then (let (ok, counts) = checkRateLimit (now_rate h) (clientIp req) (requestCounts st)
                   in (ok, st\<lparr>requestCounts := counts\<rparr>))
             else (True, st))
      in if \<not> allowed then (Rate_limited, st)
         else if http_method req = js ''OPTIONS'' then (Options_ok, st)
         else if path = js ''/'' \<or> path = [] then (Root_info, st)
         else if path = js ''/health'' then (Health, st)
         else if path = js ''/analyze'' \<and> http_method req = js ''POST''
         then analyze_route toLowerCase h (body req) st
         else if path = js ''/statistics''
         then (case cached h (cache_stats st) of
                 Some d \<Rightarrow> (Statistics d, st)
               | None \<Rightarrow>
                   (Statistics (statistics_of (threatLog st)),
                    st\<lparr>cache_stats := Some (statistics_of (threatLog st), now_store h)\<rparr>))
         else if path = js ''/threats''
         then (case cached h (cache_threats st) of
                 Some d \<Rightarrow> (Threats d, st)
               | None \<Rightarrow>
                   (Threats (threats_of (threatLog st)),
                    st\<lparr>cache_threats := Some (threats_of (threatLog st), now_store h)\<rparr>))
         else if path = js ''/prediction''
         then (case cached h (cache_pred st) of
                 Some d \<Rightarrow> (Prediction d, st)
               | None \<Rightarrow>
                   (Prediction (prediction_of (threatLog st)),
                    st\<lparr>cache_pred := Some (prediction_of (threatLog st), now_store h)\<rparr>))
         else (Not_found, st))"

text \<open>Serving a sequence of requests from a state, each with what the host supplied.\<close>

fun serve :: "(jsstring \<Rightarrow> jsstring) \<Rightarrow> (host \<times> request) list \<Rightarrow> state \<Rightarrow> state" where
  "serve toLowerCase [] st = st"
| "serve toLowerCase ((h, req) # rest) st =
     serve toLowerCase rest (snd (handler toLowerCase h req st))"

text \<open>The \<open>analysis\<close> and the \<open>number\<close> of an analyze response.\<close>

fun response_analysis :: "response \<Rightarrow> analysis_result option" where
  "response_analysis (Analyzed i n a p) = Some a"
| "response_analysis r = None"

fun response_number :: "response \<Rightarrow> jsstring option" where
  "response_number (Analyzed i n a p) = Some n"
| "response_number r = None"

text \<open>
  What the seeding of the log establishes and every call of the handler keeps: the log
  holds at least two records, one of them of level critical or high, and the cached
  statistics and prediction, when present, were computed from such a log.
\<close>

definition seeded :: "state \<Rightarrow> bool" where
  "seeded st =
     (2 \<le> length (threatLog st) \<and>
      list_ex (\<lambda>t. is_risk (logged_level (analysis t))) (threatLog st) \<and>
      (case cache_stats st of None \<Rightarrow> True | Some (d, ts) \<Rightarrow> 2 \<le> total_threats d) \<and>
      (case cache_pred st of None \<Rightarrow> True
       | Some (d, ts) \<Rightarrow> citywide_risk d = js ''elevated''))"

text \<open>The number of records of level high or critical, as the specification counts them.\<close>

definition risk_count :: "threat_record list \<Rightarrow> nat" where
  "risk_count entries =
     length (filter (\<lambda>t. logged_level (analysis t) = high \<or>
                          logged_level (analysis t) = critical) entries)"

section \<open>Auxiliary facts\<close>

lemma keyword_loop_eq:
  "keyword_loop lowered kws (f, t) =
     (f @ map (\<lambda>(kw, sc). keyword_entry kw sc) (filter (\<lambda>(kw, sc). str_includes lowered kw) kws),
      t + sum_list (map snd (filter (\<lambda>(kw, sc). str_includes lowered kw) kws)))"
  by (induction kws arbitrary: f t) auto

lemma pattern_loop_score:
  "fst (pattern_loop txt ps (a, d)) =
     a + sum_list (map (\<lambda>(rx, ty, sc). sc) (filter (\<lambda>(rx, ty, sc). str_match txt rx \<noteq> None) ps))"
  by (induction ps arbitrary: a d) (auto split: option.splits)

lemma take_append_take: "take n (xs @ take n ys) = take n (xs @ ys)"
  by (simp add: min_def)

lemma analyzeText_fields:
  "analyzeText lc now txt =
     \<lparr>text_preview = (if length txt > 150 then take 150 txt @ js ''...'' else txt),
      threat_score = min (sum_list (map snd (matching_keywords (lc txt)))
                          + sum_list (map (\<lambda>(rx, ty, sc). sc) (matching_patterns txt))
                          + script_bonus txt) 100,
      threat_level = level_of_score (min (sum_list (map snd (matching_keywords (lc txt)))
                          + sum_list (map (\<lambda>(rx, ty, sc). sc) (matching_patterns txt))
                          + script_bonus txt) 100),
      found_threats = take 10 (map (\<lambda>(kw, sc). keyword_entry kw sc) (matching_keywords (lc txt))
                               @ map char_entry (filter is_chinese txt)),
      detected_patterns = snd (pattern_loop txt PATTERNS (0, [])),
      analyzed_at = now\<rparr>"
proof -
  obtain ps dp where pl: "pattern_loop txt PATTERNS (0, []) = (ps, dp)"
    by (cases "pattern_loop txt PATTERNS (0, [])")
  have ps: "ps = sum_list (map (\<lambda>(rx, ty, sc). sc) (matching_patterns txt))"
    using pattern_loop_score [of "txt" PATTERNS 0 "[]"] by (simp add: pl matching_patterns_def)
  show ?thesis
  proof (cases "filter is_chinese txt = []")
    case True
    then show ?thesis
      unfolding analyzeText_def keyword_loop_eq
      by (simp add: Let_def pl ps matching_keywords_def script_bonus_def slice0_def)
  next
    case False
    then show ?thesis
      unfolding analyzeText_def keyword_loop_eq
      by (simp add: Let_def pl ps matching_keywords_def script_bonus_def slice0_def take_append_take
            flip: take_map)
  qed
qed


lemma js_Nil: "js [] = []" by (simp add: js_def)
lemma js_Cons: "js (c # cs) = of_char c # js cs" by (simp add: js_def)

lemma filter_weak_cong: "P = Q \<Longrightarrow> filter P xs = filter Q xs"
  by simp

lemma obj_set_subset: "set (obj_set obj k v) \<subseteq> insert (k, v) (set obj)"
  by (induction obj) (auto split: if_splits)

lemma foldl_obj_set_subset:
  "set (foldl (\<lambda>obj (k, v). obj_set obj k v) obj props) \<subseteq> set obj \<union> set props"
proof (induction props arbitrary: obj)
  case Nil
  then show ?case by simp
next
  case (Cons p props)
  obtain k v where p: "p = (k, v)" by (cases p)
  have "set (foldl (\<lambda>obj (k, v). obj_set obj k v) (obj_set obj k v) props)
          \<subseteq> set (obj_set obj k v) \<union> set props"
    by (rule Cons.IH)
  with obj_set_subset [of obj k v] show ?case
    by (auto simp: p)
qed

lemma object_literal_subset: "set (object_literal props) \<subseteq> set props"
  using foldl_obj_set_subset [of "[]" props] by (simp add: object_literal_def)

lemma filter_obj_set:
  "filter (\<lambda>(k, v). P k) (obj_set obj k v) =
     (if P k then obj_set (filter (\<lambda>(k, v). P k) obj) k v else filter (\<lambda>(k, v). P k) obj)"
  by (induction obj) auto

lemma filter_foldl_obj_set:
  "filter (\<lambda>(k, v). P k) (foldl (\<lambda>obj (k, v). obj_set obj k v) obj props) =
     foldl (\<lambda>obj (k, v). obj_set obj k v) (filter (\<lambda>(k, v). P k) obj)
       (filter (\<lambda>(k, v). P k) props)"
  by (induction props arbitrary: obj) (auto simp: filter_obj_set)

lemma filter_object_literal:
  "filter (\<lambda>(k, v). P k) (object_literal props) =
     object_literal (filter (\<lambda>(k, v). P k) props)"
  by (simp add: object_literal_def filter_foldl_obj_set)

lemma VIOLENCE_KEYWORDS_literal_ok:
  "list_all (\<lambda>(kw, sc). kw \<noteq> [] \<and> 0 \<le> sc) VIOLENCE_KEYWORDS_literal"
  by (simp add: VIOLENCE_KEYWORDS_literal_def js_Cons)

lemma VIOLENCE_KEYWORDS_ok:
  "(kw, sc) \<in> set VIOLENCE_KEYWORDS \<Longrightarrow> kw \<noteq> [] \<and> 0 \<le> sc"
  using VIOLENCE_KEYWORDS_literal_ok object_literal_subset [of VIOLENCE_KEYWORDS_literal]
  by (auto simp: VIOLENCE_KEYWORDS_def list_all_iff)

lemma keyword_total_nonneg: "0 \<le> sum_list (map snd (matching_keywords lowered))"
  by (rule sum_list_nonneg) (auto simp: matching_keywords_def dest: VIOLENCE_KEYWORDS_ok)

lemma PATTERNS_scores: "list_all (\<lambda>(rx, ty, sc). 0 \<le> sc) PATTERNS"
  by (simp add: PATTERNS_def)

lemma pattern_total_nonneg: "0 \<le> sum_list (map (\<lambda>(rx, ty, sc). sc) (matching_patterns s))"
  using PATTERNS_scores
  by (intro sum_list_nonneg) (auto simp: matching_patterns_def list_all_iff)

lemma script_bonus_nonneg: "0 \<le> script_bonus s"
  by (simp add: script_bonus_def)

lemma threat_score_eq:
  "threat_score (analyzeText lc now s) =
     min (sum_list (map snd (matching_keywords (lc s)))
          + sum_list (map (\<lambda>(rx, ty, sc). sc) (matching_patterns s)) + script_bonus s) 100"
  by (simp add: analyzeText_fields)

lemma threat_level_eq:
  "threat_level (analyzeText lc now s) = level_of_score (threat_score (analyzeText lc now s))"
  by (simp add: analyzeText_fields)

lemma threat_score_bounds:
  "0 \<le> threat_score (analyzeText lc now s) \<and> threat_score (analyzeText lc now s) \<le> 100"
  using keyword_total_nonneg [of "lc s"] pattern_total_nonneg [of s] script_bonus_nonneg [of s]
  by (simp add: threat_score_eq)

section \<open>The score and its level\<close>

text \<open>
  C1. For every string, whatever the host's \<open>toLowerCase\<close> and clock, the analysis that
  \<open>analyzeText\<close> returns has an integer \<open>threat_score\<close> with
  \<open>0 \<le> threat_score \<le> 100\<close>, and its \<open>threat_level\<close> follows from the score by the fixed
  thresholds: at least 80 is critical, 60 to 79 is high, 40 to 59 is medium, below 40 is
  low.
\<close>

theorem threat_score_range_and_level:
  "(let r = analyzeText lc now s in
      0 \<le> threat_score r \<and> threat_score r \<le> 100 \<and>
      (threat_score r \<ge> 80 \<longrightarrow> threat_level r = critical) \<and>
      (60 \<le> threat_score r \<and> threat_score r < 80 \<longrightarrow> threat_level r = high) \<and>
      (40 \<le> threat_score r \<and> threat_score r < 60 \<longrightarrow> threat_level r = medium) \<and>
      (threat_score r < 40 \<longrightarrow> threat_level r = low))"
  using threat_score_bounds [of lc now s]
  by (simp add: Let_def threat_level_eq level_of_score_def)


lemmas eval_simps =
  js_Nil js_Cons canonicalize_def is_space_def is_chinese_def toLowerCase_latin_def
  object_literal_def script_bonus_def

lemma keywords_bomb: "matching_keywords (toLowerCase_latin (js ''bomb'')) = [(js ''bomb'', 100)]"
  unfolding matching_keywords_def VIOLENCE_KEYWORDS_def filter_object_literal
    VIOLENCE_KEYWORDS_literal_def
  by (simp add: eval_simps cong: filter_weak_cong)

lemma patterns_bomb: "matching_patterns (js ''bomb'') = []"
  unfolding matching_patterns_def PATTERNS_def
  by (simp add: eval_simps cong: filter_weak_cong)

lemma keywords_gun: "matching_keywords (toLowerCase_latin (js ''gun'')) = [(js ''gun'', 70)]"
  unfolding matching_keywords_def VIOLENCE_KEYWORDS_def filter_object_literal
    VIOLENCE_KEYWORDS_literal_def
  by (simp add: eval_simps cong: filter_weak_cong)

lemma patterns_gun: "matching_patterns (js ''gun'') = []"
  unfolding matching_patterns_def PATTERNS_def
  by (simp add: eval_simps cong: filter_weak_cong)

lemma keywords_scam: "matching_keywords (toLowerCase_latin (js ''scam'')) = [(js ''scam'', 45)]"
  unfolding matching_keywords_def VIOLENCE_KEYWORDS_def filter_object_literal
    VIOLENCE_KEYWORDS_literal_def
  by (simp add: eval_simps cong: filter_weak_cong)

lemma patterns_scam: "matching_patterns (js ''scam'') = []"
  unfolding matching_patterns_def PATTERNS_def
  by (simp add: eval_simps cong: filter_weak_cong)

lemma keywords_hello: "matching_keywords (toLowerCase_latin (js ''hello'')) = []"
  unfolding matching_keywords_def VIOLENCE_KEYWORDS_def filter_object_literal
    VIOLENCE_KEYWORDS_literal_def
  by (simp add: eval_simps cong: filter_weak_cong)

lemma patterns_hello: "matching_patterns (js ''hello'') = []"
  unfolding matching_patterns_def PATTERNS_def
  by (simp add: eval_simps cong: filter_weak_cong)

text \<open>
  The four buckets are all reached: \<open>bomb\<close> scores 100, \<open>gun\<close> 70, \<open>scam\<close> 45 and
  \<open>hello\<close> 0.
\<close>

theorem threat_score_range_and_level_witness:
  "threat_score (analyzeText toLowerCase_latin (js ''2026-02-17T12:00:00.000Z'') (js ''bomb'')) = 100 \<and>
   threat_level (analyzeText toLowerCase_latin (js ''2026-02-17T12:00:00.000Z'') (js ''bomb'')) = critical \<and>
   threat_score (analyzeText toLowerCase_latin (js ''2026-02-17T12:00:00.000Z'') (js ''gun'')) = 70 \<and>
   threat_level (analyzeText toLowerCase_latin (js ''2026-02-17T12:00:00.000Z'') (js ''gun'')) = high \<and>
   threat_score (analyzeText toLowerCase_latin (js ''2026-02-17T12:00:00.000Z'') (js ''scam'')) = 45 \<and>
   threat_level (analyzeText toLowerCase_latin (js ''2026-02-17T12:00:00.000Z'') (js ''scam'')) = medium \<and>
   threat_score (analyzeText toLowerCase_latin (js ''2026-02-17T12:00:00.000Z'') (js ''hello'')) = 0 \<and>
   threat_level (analyzeText toLowerCase_latin (js ''2026-02-17T12:00:00.000Z'') (js ''hello'')) = low"
proof -
  let ?now = "js ''2026-02-17T12:00:00.000Z''"
  have s1: "threat_score (analyzeText toLowerCase_latin ?now (js ''bomb'')) = 100"
    unfolding threat_score_eq keywords_bomb patterns_bomb by (simp add: eval_simps)
  have s2: "threat_score (analyzeText toLowerCase_latin ?now (js ''gun'')) = 70"
    unfolding threat_score_eq keywords_gun patterns_gun by (simp add: eval_simps)
  have s3: "threat_score (analyzeText toLowerCase_latin ?now (js ''scam'')) = 45"
    unfolding threat_score_eq keywords_scam patterns_scam by (simp add: eval_simps)
  have s4: "threat_score (analyzeText toLowerCase_latin ?now (js ''hello'')) = 0"
    unfolding threat_score_eq keywords_hello patterns_hello by (simp add: eval_simps)
  show ?thesis
    using threat_score_range_and_level [of toLowerCase_latin ?now "js ''bomb''"]
      threat_score_range_and_level [of toLowerCase_latin ?now "js ''gun''"]
      threat_score_range_and_level [of toLowerCase_latin ?now "js ''scam''"]
      threat_score_range_and_level [of toLowerCase_latin ?now "js ''hello''"]
    unfolding Let_def s1 s2 s3 s4 by simp
qed

section \<open>The script bonus\<close>

text \<open>
  The pattern rules add to the score as well: the ten ideographs below hold no lexicon
  keyword, but the rule for a teacher, a classmate, a colleague or a boss followed by a
  verdict matches them and adds 30, so the score is 80 and the level critical.
\<close>

lemma keywords_teacher:
  "matching_keywords (toLowerCase_latin
     [0x8001, 0x5E08, 0x8BE5, 0x4F11, 0x606F, 0x4E00, 0x4E0B, 0x4E86, 0x5427, 0x554A]) = []"
  unfolding matching_keywords_def VIOLENCE_KEYWORDS_def filter_object_literal
    VIOLENCE_KEYWORDS_literal_def
  by (simp add: eval_simps cong: filter_weak_cong)

lemma patterns_teacher:
  "map (\<lambda>(rx, ty, sc). sc) (matching_patterns
     [0x8001, 0x5E08, 0x8BE5, 0x4F11, 0x606F, 0x4E00, 0x4E0B, 0x4E86, 0x5427, 0x554A]) = [30]"
  unfolding matching_patterns_def PATTERNS_def
  by (simp add: eval_simps cong: filter_weak_cong)

text \<open>
  The range that the source tests ends at U+9FA5, before the end of the block: the ten
  characters from U+9FA6 to U+9FAF are in the block, hold no lexicon keyword and match no
  rule, and they get no bonus at all.
\<close>

lemma keywords_block_end:
  "matching_keywords (toLowerCase_latin
     [0x9FA6, 0x9FA7, 0x9FA8, 0x9FA9, 0x9FAA, 0x9FAB, 0x9FAC, 0x9FAD, 0x9FAE, 0x9FAF]) = []"
  unfolding matching_keywords_def VIOLENCE_KEYWORDS_def filter_object_literal
    VIOLENCE_KEYWORDS_literal_def
  by (simp add: eval_simps cong: filter_weak_cong)

lemma patterns_block_end:
  "matching_patterns
     [0x9FA6, 0x9FA7, 0x9FA8, 0x9FA9, 0x9FAA, 0x9FAB, 0x9FAC, 0x9FAD, 0x9FAE, 0x9FAF] = []"
  unfolding matching_patterns_def PATTERNS_def
  by (simp add: eval_simps cong: filter_weak_cong)

text \<open>
  C2, as stated, fails on these two inputs. The first has ten characters in the range and
  no lexicon keyword, and yet the score is 80 and the level critical. The second has ten
  characters of the block CJK Unified Ideographs and no lexicon keyword, and the score is
  0 and the level low.
\<close>

theorem ten_characters_counterexample:
  "length (filter is_chinese
     [0x8001, 0x5E08, 0x8BE5, 0x4F11, 0x606F, 0x4E00, 0x4E0B, 0x4E86, 0x5427, 0x554A]) = 10 \<and>
   keyword_loop (toLowerCase_latin
     [0x8001, 0x5E08, 0x8BE5, 0x4F11, 0x606F, 0x4E00, 0x4E0B, 0x4E86, 0x5427, 0x554A])
     VIOLENCE_KEYWORDS ([], 0) = ([], 0) \<and>
   threat_score (analyzeText toLowerCase_latin (js ''2026-02-17T12:00:00.000Z'')
     [0x8001, 0x5E08, 0x8BE5, 0x4F11, 0x606F, 0x4E00, 0x4E0B, 0x4E86, 0x5427, 0x554A]) = 80 \<and>
   threat_level (analyzeText toLowerCase_latin (js ''2026-02-17T12:00:00.000Z'')
     [0x8001, 0x5E08, 0x8BE5, 0x4F11, 0x606F, 0x4E00, 0x4E0B, 0x4E86, 0x5427, 0x554A]) = critical \<and>
   length (filter in_cjk_block
     [0x9FA6, 0x9FA7, 0x9FA8, 0x9FA9, 0x9FAA, 0x9FAB, 0x9FAC, 0x9FAD, 0x9FAE, 0x9FAF]) = 10 \<and>
   keyword_loop (toLowerCase_latin
     [0x9FA6, 0x9FA7, 0x9FA8, 0x9FA9, 0x9FAA, 0x9FAB, 0x9FAC, 0x9FAD, 0x9FAE, 0x9FAF])
     VIOLENCE_KEYWORDS ([], 0) = ([], 0) \<and>
   threat_score (analyzeText toLowerCase_latin (js ''2026-02-17T12:00:00.000Z'')
     [0x9FA6, 0x9FA7, 0x9FA8, 0x9FA9, 0x9FAA, 0x9FAB, 0x9FAC, 0x9FAD, 0x9FAE, 0x9FAF]) = 0 \<and>
   threat_level (analyzeText toLowerCase_latin (js ''2026-02-17T12:00:00.000Z'')
     [0x9FA6, 0x9FA7, 0x9FA8, 0x9FA9, 0x9FAA, 0x9FAB, 0x9FAC, 0x9FAD, 0x9FAE, 0x9FAF]) = low"
proof -
  let ?t = "[0x8001, 0x5E08, 0x8BE5, 0x4F11, 0x606F, 0x4E00, 0x4E0B, 0x4E86, 0x5427, 0x554A] :: jsstring"
  let ?u = "[0x9FA6, 0x9FA7, 0x9FA8, 0x9FA9, 0x9FAA, 0x9FAB, 0x9FAC, 0x9FAD, 0x9FAE, 0x9FAF] :: jsstring"
  let ?now = "js ''2026-02-17T12:00:00.000Z''"
  have n: "length (filter is_chinese ?t) = 10"
    by (simp add: is_chinese_def)
  have k: "keyword_loop (toLowerCase_latin ?t) VIOLENCE_KEYWORDS ([], 0) = ([], 0)"
    using keywords_teacher by (simp add: keyword_loop_eq matching_keywords_def)
  have s: "threat_score (analyzeText toLowerCase_latin ?now ?t) = 80"
    unfolding threat_score_eq keywords_teacher patterns_teacher script_bonus_def n by simp
  have l: "threat_level (analyzeText toLowerCase_latin ?now ?t) = critical"
    unfolding threat_level_eq s by (simp add: level_of_score_def)
  have n': "length (filter in_cjk_block ?u) = 10"
    by (simp add: in_cjk_block_def)
  have c': "filter is_chinese ?u = []"
    by (simp add: is_chinese_def)
  have k': "keyword_loop (toLowerCase_latin ?u) VIOLENCE_KEYWORDS ([], 0) = ([], 0)"
    using keywords_block_end by (simp add: keyword_loop_eq matching_keywords_def)
  have s': "threat_score (analyzeText toLowerCase_latin ?now ?u) = 0"
    unfolding threat_score_eq keywords_block_end patterns_block_end script_bonus_def c' by simp
  have l': "threat_level (analyzeText toLowerCase_latin ?now ?u) = low"
    unfolding threat_level_eq s' by (simp add: level_of_score_def)
  from n k s l n' k' s' l' show ?thesis by blast
qed

text \<open>
  C2, amended. The score is the capped sum of the keyword weights, the pattern bonuses and
  the script bonus \<open>min (count * 10) 50\<close>, where \<open>count\<close> is the number of code units of
  the text from U+4E00 to U+9FA5. For every text with exactly ten such characters that
  matches no lexicon keyword and no pattern rule, the score is 50 and the level medium.
\<close>

theorem script_bonus_and_ten_characters:
  "threat_score (analyzeText lc now s) =
     min (sum_list (map snd (matching_keywords (lc s)))
          + sum_list (map (\<lambda>(rx, ty, sc). sc) (matching_patterns s))
          + min (int (length (filter is_chinese s)) * 10) 50) 100 \<and>
   (length (filter is_chinese s) = 10 \<and> matching_keywords (lc s) = [] \<and>
    matching_patterns s = [] \<longrightarrow>
      threat_score (analyzeText lc now s) = 50 \<and> threat_level (analyzeText lc now s) = medium)"
  by (simp add: threat_score_eq threat_level_eq script_bonus_def level_of_score_def)

lemma keywords_rest:
  "matching_keywords (toLowerCase_latin
     [0x4F11, 0x606F, 0x4E00, 0x4E0B, 0x4E86, 0x5427, 0x554A, 0x4F11, 0x606F, 0x4E00]) = []"
  unfolding matching_keywords_def VIOLENCE_KEYWORDS_def filter_object_literal
    VIOLENCE_KEYWORDS_literal_def
  by (simp add: eval_simps cong: filter_weak_cong)

lemma patterns_rest:
  "matching_patterns
     [0x4F11, 0x606F, 0x4E00, 0x4E0B, 0x4E86, 0x5427, 0x554A, 0x4F11, 0x606F, 0x4E00] = []"
  unfolding matching_patterns_def PATTERNS_def
  by (simp add: eval_simps cong: filter_weak_cong)

text \<open>Ten ideographs that match no keyword and no rule.\<close>

theorem script_bonus_and_ten_characters_witness:
  "length (filter is_chinese
     [0x4F11, 0x606F, 0x4E00, 0x4E0B, 0x4E86, 0x5427, 0x554A, 0x4F11, 0x606F, 0x4E00]) = 10 \<and>
   threat_score (analyzeText toLowerCase_latin (js ''2026-02-17T12:00:00.000Z'')
     [0x4F11, 0x606F, 0x4E00, 0x4E0B, 0x4E86, 0x5427, 0x554A, 0x4F11, 0x606F, 0x4E00]) = 50 \<and>
   threat_level (analyzeText toLowerCase_latin (js ''2026-02-17T12:00:00.000Z'')
     [0x4F11, 0x606F, 0x4E00, 0x4E0B, 0x4E86, 0x5427, 0x554A, 0x4F11, 0x606F, 0x4E00]) = medium"
proof -
  let ?t = "[0x4F11, 0x606F, 0x4E00, 0x4E0B, 0x4E86, 0x5427, 0x554A, 0x4F11, 0x606F, 0x4E00] :: jsstring"
  have n: "length (filter is_chinese ?t) = 10"
    by (simp add: is_chinese_def)
  from script_bonus_and_ten_characters [of toLowerCase_latin "js ''2026-02-17T12:00:00.000Z''" ?t]
    n keywords_rest patterns_rest
  show ?thesis by blast
qed

section \<open>The evidence list\<close>

text \<open>
  C7. For every text, \<open>found_threats\<close> has at most ten entries, and they are the first
  ten in the order of discovery: the keyword matches in the iteration order of the
  lexicon, then one entry for each character in the range.
\<close>

theorem found_threats_first_ten:
  "length (found_threats (analyzeText lc now s)) \<le> 10 \<and>
   found_threats (analyzeText lc now s) =
     take 10 (map (\<lambda>(kw, sc). keyword_entry kw sc) (matching_keywords (lc s))
              @ map char_entry (filter is_chinese s))"
  by (simp add: analyzeText_fields)

section \<open>Totality and the empty string\<close>


lemma startsWith_Nil: "startsWith [] k = (k = [])"
  by (cases k) simp_all

lemma matching_keywords_Nil: "matching_keywords [] = []"
  by (auto simp: matching_keywords_def filter_empty_conv startsWith_Nil
        dest: VIOLENCE_KEYWORDS_ok)

lemma pattern_loop_Nil: "pattern_loop [] PATTERNS (0, []) = (0, [])"
  by (simp add: PATTERNS_def eval_simps)

lemma matching_patterns_Nil: "matching_patterns [] = []"
  unfolding matching_patterns_def PATTERNS_def
  by (simp add: eval_simps cong: filter_weak_cong)

lemma analysis_well_formed: "well_formed (analyzeText lc now s)"
  using threat_score_bounds [of lc now s]
  by (simp add: well_formed_def threat_level_eq) (simp add: analyzeText_fields js_def)

text \<open>
  C8. \<open>analyzeText\<close> has no failing branch: for every string it returns an analysis of
  the shape of the data model. For the empty string (which the host's \<open>toLowerCase\<close>
  leaves empty) the score is 0, the level low, and both evidence lists are empty.
\<close>

theorem scorer_total_and_empty_string:
  "well_formed (analyzeText lc now s) \<and>
   (lc [] = [] \<longrightarrow>
      analyzeText lc now [] =
        \<lparr>text_preview = [], threat_score = 0, threat_level = low, found_threats = [],
         detected_patterns = [], analyzed_at = now\<rparr>)"
proof (intro conjI impI)
  show "well_formed (analyzeText lc now s)"
    by (rule analysis_well_formed)
next
  assume "lc [] = []"
  then show "analyzeText lc now [] =
        \<lparr>text_preview = [], threat_score = 0, threat_level = low, found_threats = [],
         detected_patterns = [], analyzed_at = now\<rparr>"
    by (simp add: analyzeText_fields matching_keywords_Nil matching_patterns_Nil
          pattern_loop_Nil script_bonus_def level_of_score_def)
qed

theorem scorer_total_and_empty_string_witness:
  "toLowerCase_latin [] = [] \<and>
   well_formed (analyzeText toLowerCase_latin (js ''2026-02-17T12:00:00.000Z'') []) \<and>
   analyzeText toLowerCase_latin (js ''2026-02-17T12:00:00.000Z'') [] =
     \<lparr>text_preview = [], threat_score = 0, threat_level = low, found_threats = [],
      detected_patterns = [], analyzed_at = js ''2026-02-17T12:00:00.000Z''\<rparr>"
proof -
  have e: "toLowerCase_latin [] = []"
    by (simp add: toLowerCase_latin_def)
  from e scorer_total_and_empty_string [of toLowerCase_latin "js ''2026-02-17T12:00:00.000Z''" "[]"]
  show ?thesis by blast
qed

section \<open>The probability estimator\<close>

lemma rat_min_100: "min (of_int x :: rat) 100 = of_int (min x 100)"
  by (simp add: min_def)

lemma rat_le_of_int_80: "((80 :: rat) \<le> of_int y) = (80 \<le> y)"
  using of_int_le_iff [of 80 y, where 'a = rat] by simp

lemma rat_le_of_int_60: "((60 :: rat) \<le> of_int y) = (60 \<le> y)"
  using of_int_le_iff [of 60 y, where 'a = rat] by simp

lemma night_base:
  "(if hr < 6 \<or> hr > 23 then (of_nat (length ts) * 20 :: rat) * (13 / 10)
    else of_nat (length ts) * 20)
   = of_int ((if hr < 6 \<or> hr > (23 :: nat) then 26 else 20) * int (length ts))"
  by simp

lemma calculateProbability_int:
  assumes "ts \<noteq> []"
  shows "calculateProbability hr ts =
     \<lparr>probability = min ((if hr < 6 \<or> hr > 23 then 26 else 20) * int (length ts)) 100,
      risk_level =
        (if min ((if hr < 6 \<or> hr > 23 then 26 else 20) * int (length ts)) 100 \<ge> 80
         then js ''extreme''
         else if min ((if hr < 6 \<or> hr > 23 then 26 else 20) * int (length ts)) 100 \<ge> 60
         then js ''high'' else js ''moderate''),
      prediction =
        (if min ((if hr < 6 \<or> hr > 23 then 26 else 20) * int (length ts)) 100 \<ge> 60
         then js ''HIGH CRIME PROBABILITY'' else js ''Low risk'')\<rparr>"
proof -
  define x where "x = (if hr < 6 \<or> hr > 23 then 26 else 20) * int (length ts)"
  have base: "(if hr < 6 \<or> hr > 23 then (of_nat (length ts) * 20 :: rat) * (13 / 10)
               else of_nat (length ts) * 20) = of_int x"
    unfolding x_def by (rule night_base)
  from assms have len: "(length ts = 0) = False" by simp
  show ?thesis
    unfolding calculateProbability_def Let_def base len rat_min_100 rat_le_of_int_80
      rat_le_of_int_60 round_of_int x_def [symmetric]
    by simp
qed

text \<open>
  What the estimator computes from the hour that the clock reports: with \<open>base = n * 20\<close>,
  multiplied by 1.3 when that hour is below 6 or above 23, the probability is
  \<open>min (round base) 100\<close>, the risk level is extreme from 80, high from 60 and moderate
  below, and the prediction is \<open>HIGH CRIME PROBABILITY\<close> exactly from 60.
\<close>

lemma calculateProbability_formulas:
  "calculateProbability hr [] =
     \<lparr>probability = 0, risk_level = js ''minimal'', prediction = js ''No threat signals''\<rparr> \<and>
   (ts \<noteq> [] \<longrightarrow>
      probability (calculateProbability hr ts) =
        min (round (if hr < 6 \<or> hr > 23 then (of_nat (length ts) * 20 :: rat) * (13 / 10)
                    else of_nat (length ts) * 20)) 100 \<and>
      risk_level (calculateProbability hr ts) =
        (if probability (calculateProbability hr ts) \<ge> 80 then js ''extreme''
         else if probability (calculateProbability hr ts) \<ge> 60 then js ''high''
         else js ''moderate'') \<and>
      (prediction (calculateProbability hr ts) = js ''HIGH CRIME PROBABILITY'') =
        (probability (calculateProbability hr ts) \<ge> 60))"
proof (intro conjI impI)
  show "calculateProbability hr [] =
     \<lparr>probability = 0, risk_level = js ''minimal'', prediction = js ''No threat signals''\<rparr>"
    by (simp add: calculateProbability_def)
next
  assume ne: "ts \<noteq> []"
  show "probability (calculateProbability hr ts) =
        min (round (if hr < 6 \<or> hr > 23 then (of_nat (length ts) * 20 :: rat) * (13 / 10)
                    else of_nat (length ts) * 20)) 100"
    unfolding night_base round_of_int calculateProbability_int [OF ne] by simp
next
  assume ne: "ts \<noteq> []"
  show "risk_level (calculateProbability hr ts) =
        (if probability (calculateProbability hr ts) \<ge> 80 then js ''extreme''
         else if probability (calculateProbability hr ts) \<ge> 60 then js ''high''
         else js ''moderate'')"
    unfolding calculateProbability_int [OF ne] by simp
next
  assume ne: "ts \<noteq> []"
  have diff: "js ''HIGH CRIME PROBABILITY'' \<noteq> js ''Low risk''"
    by (simp add: js_Cons)
  show "(prediction (calculateProbability hr ts) = js ''HIGH CRIME PROBABILITY'') =
        (probability (calculateProbability hr ts) \<ge> 60)"
    unfolding calculateProbability_int [OF ne] using diff by simp
qed

text \<open>
  C5 at the input where the code misses it. The estimator is to raise the base by 1.3
  before 06:00 and after 23:00, but the test for the late evening is \<open>hour > 23\<close>, and
  the hour of a time after 23:00 is 23: for one analysis at 23:30 the code returns
  probability 20, risk level moderate and \<open>Low risk\<close>, where the raised base gives 26.
\<close>

theorem late_evening_not_elevated:
  "calculateProbability 23 [()] =
     \<lparr>probability = 20, risk_level = js ''moderate'', prediction = js ''Low risk''\<rparr> \<and>
   min (round ((of_nat (length [()]) * 20 :: rat) * (13 / 10))) 100 = 26"
  by (simp add: calculateProbability_int)

text \<open>
  C10. An hour read from the clock is at most 23, so the test \<open>hour > 23\<close> never holds:
  the multiplier is applied exactly for the hours 0 to 5, and at hour 23 the result is the
  one without elevation.
\<close>

theorem night_multiplier_hours:
  "(hr \<le> 23 \<longrightarrow> (hr < 6 \<or> hr > 23) = (hr < 6)) \<and>
   (hr \<le> 23 \<and> ts \<noteq> [] \<longrightarrow>
      probability (calculateProbability hr ts) =
        min ((if hr < 6 then 26 else 20) * int (length ts)) 100) \<and>
   (ts \<noteq> [] \<longrightarrow>
      probability (calculateProbability 23 ts) = min (20 * int (length ts)) 100 \<and>
      calculateProbability 23 ts = calculateProbability 12 ts)"
  by (auto simp: calculateProbability_int)

theorem night_multiplier_hours_witness:
  "probability (calculateProbability 23 [()]) = 20 \<and>
   probability (calculateProbability 5 [()]) = 26 \<and>
   probability (calculateProbability 6 [()]) = 20"
  using night_multiplier_hours [of 23 "[()]"] night_multiplier_hours [of 5 "[()]"]
    night_multiplier_hours [of 6 "[()]"]
  by simp

section \<open>The prediction over the log\<close>

lemma is_risk_iff: "is_risk l = (l = high \<or> l = critical)"
  by (auto simp: is_risk_def)

lemma prediction_of_risk_count:
  "prediction_of entries =
     \<lparr>citywide_risk = (if risk_count entries > 0 then js ''elevated'' else js ''low''),
      predicted_crimes = risk_count entries * 3,
      hotspots = (if risk_count entries > 0 then [js ''downtown'', js ''transit hub''] else []),
      confidence = (if risk_count entries > 2 then js ''high'' else js ''medium'')\<rparr>"
  by (simp add: prediction_of_def risk_count_def is_risk_iff Let_def)

lemma handler_prediction_miss:
  "url req = js ''/prediction'' \<Longrightarrow> http_method req \<noteq> js ''OPTIONS'' \<Longrightarrow>
   cached h (cache_pred st) = None \<Longrightarrow>
   handler lc h req st =
     (Prediction (prediction_of (threatLog st)),
      st\<lparr>cache_pred := Some (prediction_of (threatLog st), now_store h)\<rparr>)"
  by (simp add: handler_def js_Cons js_Nil)

text \<open>
  C6. With \<open>risk_count\<close> the number of log records of level high or critical, the
  predictor returns \<open>citywide_risk\<close> elevated exactly when \<open>risk_count > 0\<close> and low
  otherwise, \<open>risk_count * 3\<close> predicted crimes (the field \<open>predicted_crimes\<close> of the
  response), the two fixed hotspots exactly when \<open>risk_count > 0\<close> and none otherwise,
  and \<open>confidence\<close> high exactly when \<open>risk_count > 2\<close> and medium otherwise; three such
  records give elevated, 9 and high. This is what the \<open>/prediction\<close> route answers when
  its cache entry is not fresh.
\<close>

theorem log_based_prediction:
  "(citywide_risk (prediction_of entries) = js ''elevated'') = (risk_count entries > 0) \<and>
   (citywide_risk (prediction_of entries) = js ''low'') = (risk_count entries = 0) \<and>
   predicted_crimes (prediction_of entries) = risk_count entries * 3 \<and>
   (hotspots (prediction_of entries) = [js ''downtown'', js ''transit hub''])
      = (risk_count entries > 0) \<and>
   (hotspots (prediction_of entries) = []) = (risk_count entries = 0) \<and>
   (confidence (prediction_of entries) = js ''high'') = (risk_count entries > 2) \<and>
   (confidence (prediction_of entries) = js ''medium'') = (risk_count entries \<le> 2) \<and>
   (risk_count entries = 3 \<longrightarrow>
      citywide_risk (prediction_of entries) = js ''elevated'' \<and>
      predicted_crimes (prediction_of entries) = 9 \<and>
      confidence (prediction_of entries) = js ''high'') \<and>
   (url req = js ''/prediction'' \<and> http_method req \<noteq> js ''OPTIONS'' \<and>
    cached h (cache_pred st) = None \<longrightarrow>
      fst (handler lc h req st) = Prediction (prediction_of (threatLog st)))"
proof -
  have d1: "js ''elevated'' \<noteq> js ''low''" and d2: "js ''high'' \<noteq> js ''medium''"
    by (simp_all add: js_Cons)
  have fields:
    "(citywide_risk (prediction_of entries) = js ''elevated'') = (risk_count entries > 0)"
    "(citywide_risk (prediction_of entries) = js ''low'') = (risk_count entries = 0)"
    "predicted_crimes (prediction_of entries) = risk_count entries * 3"
    "(hotspots (prediction_of entries) = [js ''downtown'', js ''transit hub''])
       = (risk_count entries > 0)"
    "(hotspots (prediction_of entries) = []) = (risk_count entries = 0)"
    "(confidence (prediction_of entries) = js ''high'') = (risk_count entries > 2)"
    "(confidence (prediction_of entries) = js ''medium'') = (risk_count entries \<le> 2)"
    unfolding prediction_of_risk_count using d1 d2 by auto
  have three: "risk_count entries = 3 \<longrightarrow>
      citywide_risk (prediction_of entries) = js ''elevated'' \<and>
      predicted_crimes (prediction_of entries) = 9 \<and>
      confidence (prediction_of entries) = js ''high''"
    unfolding prediction_of_risk_count by simp
  have route: "url req = js ''/prediction'' \<and> http_method req \<noteq> js ''OPTIONS'' \<and>
    cached h (cache_pred st) = None \<longrightarrow>
      fst (handler lc h req st) = Prediction (prediction_of (threatLog st))"
    by (simp add: handler_prediction_miss)
  from fields three route show ?thesis
    by blast
qed


text \<open>A log of three records, one critical and two high.\<close>

theorem log_based_prediction_witness:
  "risk_count
     [\<lparr>number = js ''N-K3J2H1G0'', source = js ''reddit'', original_text = js ''bomb'',
       analysis = Demo_analysis critical 100 [], detected_at = js ''2026-02-17T12:00:00.000Z''\<rparr>,
      \<lparr>number = js ''N-A1B2C3D4'', source = js ''reddit'', original_text = js ''gun'',
       analysis = Demo_analysis high 70 [], detected_at = js ''2026-02-17T12:00:01.000Z''\<rparr>,
      \<lparr>number = js ''N-Z9Y8X7W6'', source = js ''reddit'', original_text = js ''gun'',
       analysis = Demo_analysis high 70 [], detected_at = js ''2026-02-17T12:00:02.000Z''\<rparr>] = 3 \<and>
   citywide_risk (prediction_of
     [\<lparr>number = js ''N-K3J2H1G0'', source = js ''reddit'', original_text = js ''bomb'',
       analysis = Demo_analysis critical 100 [], detected_at = js ''2026-02-17T12:00:00.000Z''\<rparr>,
      \<lparr>number = js ''N-A1B2C3D4'', source = js ''reddit'', original_text = js ''gun'',
       analysis = Demo_analysis high 70 [], detected_at = js ''2026-02-17T12:00:01.000Z''\<rparr>,
      \<lparr>number = js ''N-Z9Y8X7W6'', source = js ''reddit'', original_text = js ''gun'',
       analysis = Demo_analysis high 70 [], detected_at = js ''2026-02-17T12:00:02.000Z''\<rparr>])
     = js ''elevated'' \<and>
   predicted_crimes (prediction_of
     [\<lparr>number = js ''N-K3J2H1G0'', source = js ''reddit'', original_text = js ''bomb'',
       analysis = Demo_analysis critical 100 [], detected_at = js ''2026-02-17T12:00:00.000Z''\<rparr>,
      \<lparr>number = js ''N-A1B2C3D4'', source = js ''reddit'', original_text = js ''gun'',
       analysis = Demo_analysis high 70 [], detected_at = js ''2026-02-17T12:00:01.000Z''\<rparr>,
      \<lparr>number = js ''N-Z9Y8X7W6'', source = js ''reddit'', original_text = js ''gun'',
       analysis = Demo_analysis high 70 [], detected_at = js ''2026-02-17T12:00:02.000Z''\<rparr>])
     = 9 \<and>
   confidence (prediction_of
     [\<lparr>number = js ''N-K3J2H1G0'', source = js ''reddit'', original_text = js ''bomb'',
       analysis = Demo_analysis critical 100 [], detected_at = js ''2026-02-17T12:00:00.000Z''\<rparr>,
      \<lparr>number = js ''N-A1B2C3D4'', source = js ''reddit'', original_text = js ''gun'',
       analysis = Demo_analysis high 70 [], detected_at = js ''2026-02-17T12:00:01.000Z''\<rparr>,
      \<lparr>number = js ''N-Z9Y8X7W6'', source = js ''reddit'', original_text = js ''gun'',
       analysis = Demo_analysis high 70 [], detected_at = js ''2026-02-17T12:00:02.000Z''\<rparr>])
     = js ''high''"
proof -
  let ?log = "[\<lparr>number = js ''N-K3J2H1G0'', source = js ''reddit'', original_text = js ''bomb'',
       analysis = Demo_analysis critical 100 [], detected_at = js ''2026-02-17T12:00:00.000Z''\<rparr>,
      \<lparr>number = js ''N-A1B2C3D4'', source = js ''reddit'', original_text = js ''gun'',
       analysis = Demo_analysis high 70 [], detected_at = js ''2026-02-17T12:00:01.000Z''\<rparr>,
      \<lparr>number = js ''N-Z9Y8X7W6'', source = js ''reddit'', original_text = js ''gun'',
       analysis = Demo_analysis high 70 [], detected_at = js ''2026-02-17T12:00:02.000Z''\<rparr>]"
  have n: "risk_count ?log = 3"
    by (simp add: risk_count_def)
  from n log_based_prediction [of ?log]
  show ?thesis by blast
qed

section \<open>The routes of the handler\<close>

lemma handler_analyze_path:
  "url req = js ''/analyze'' \<Longrightarrow>
   handler lc h req st =
     (case checkRateLimit (now_rate h) (clientIp req) (requestCounts st) of
        (ok, counts) \<Rightarrow>
          if \<not> ok then (Rate_limited, st\<lparr>requestCounts := counts\<rparr>)
          else if http_method req = js ''OPTIONS''
          then (Options_ok, st\<lparr>requestCounts := counts\<rparr>)
          else if http_method req = js ''POST''
          then analyze_route lc h (body req) (st\<lparr>requestCounts := counts\<rparr>)
          else (Not_found, st\<lparr>requestCounts := counts\<rparr>))"
  by (simp add: handler_def Let_def js_Cons js_Nil split: prod.splits)

lemma handler_other_path:
  "url req \<noteq> js ''/analyze'' \<Longrightarrow>
   handler lc h req st =
     (if http_method req = js ''OPTIONS'' then (Options_ok, st)
      else if url req = js ''/'' \<or> url req = [] then (Root_info, st)
      else if url req = js ''/health'' then (Health, st)
      else if url req = js ''/statistics''
      then (case cached h (cache_stats st) of
              Some d \<Rightarrow> (Statistics d, st)
            | None \<Rightarrow>
                (Statistics (statistics_of (threatLog st)),
                 st\<lparr>cache_stats := Some (statistics_of (threatLog st), now_store h)\<rparr>))
      else if url req = js ''/threats''
      then (case cached h (cache_threats st) of
              Some d \<Rightarrow> (Threats d, st)
            | None \<Rightarrow>
                (Threats (threats_of (threatLog st)),
                 st\<lparr>cache_threats := Some (threats_of (threatLog st), now_store h)\<rparr>))
      else if url req = js ''/prediction''
      then (case cached h (cache_pred st) of
              Some d \<Rightarrow> (Prediction d, st)
            | None \<Rightarrow>
                (Prediction (prediction_of (threatLog st)),
                 st\<lparr>cache_pred := Some (prediction_of (threatLog st), now_store h)\<rparr>))
      else (Not_found, st))"
  by (simp add: handler_def Let_def split del: if_split cong: if_cong option.case_cong)

lemma text_preview_eq:
  "text_preview (analyzeText lc now s) =
     (if length s > 150 then take 150 s @ js ''...'' else s)"
  by (simp add: analyzeText_fields)

lemma analyze_route_Analyzed:
  "fst (analyze_route lc h b st) = Analyzed i n a p \<Longrightarrow>
   \<exists>t. b = Text t \<and> t \<noteq> [] \<and> trim t \<noteq> [] \<and> length t \<le> 10000 \<and>
       a = analyzeText lc (date_analyzed h) (take 5000 (trim t)) \<and>
       n = threat_number (random_number h) \<and> i = substr 2 8 (random_id h)"
  by (cases b) (auto simp: analyze_route_def Let_def slice0_def split: if_splits)

lemma handler_Analyzed:
  "fst (handler lc h req st) = Analyzed i n a p \<Longrightarrow>
   \<exists>st'. fst (analyze_route lc h (body req) st') = Analyzed i n a p"
  unfolding handler_def Let_def
  by (auto split: if_splits prod.splits option.splits)

lemma trim_Nil: "trim [] = []"
  by (simp add: trim_def)

lemma handler_analyze_response:
  assumes "url req = js ''/analyze''" and "http_method req = js ''POST''"
    and "body req = Text t" and "trim t \<noteq> []" and "length t \<le> 10000"
    and "fst (checkRateLimit (now_rate h) (clientIp req) (requestCounts st))"
  shows "response_analysis (fst (handler lc h req st)) =
           Some (analyzeText lc (date_analyzed h) (take 5000 (trim t)))"
proof -
  obtain counts
    where c: "checkRateLimit (now_rate h) (clientIp req) (requestCounts st) = (True, counts)"
    using assms(6) by (cases "checkRateLimit (now_rate h) (clientIp req) (requestCounts st)") simp
  from assms(4) have ne: "t \<noteq> []"
    using trim_Nil by auto
  have m: "js ''POST'' \<noteq> js ''OPTIONS''"
    by (simp add: js_Cons)
  show ?thesis
    unfolding handler_analyze_path [OF assms(1)] c
    using assms(2-5) ne m by (simp add: analyze_route_def Let_def slice0_def)
qed

lemma trim_long_input:
  "trim (replicate 150 0x61 @ [0x20]) = replicate 150 0x61"
proof -
  have a: "\<not> is_space 0x61" and s: "is_space 0x20"
    by (simp_all add: is_space_def)
  have r: "replicate 150 (0x61 :: unit16) = 0x61 # replicate 149 0x61"
    by (simp add: replicate_Suc [symmetric] del: replicate_Suc)
  have "dropWhile is_space (replicate 150 0x61 @ [0x20]) = replicate 150 0x61 @ [0x20]"
    unfolding r using a by simp
  moreover have "rev (replicate 150 (0x61 :: unit16) @ [0x20]) = 0x20 # replicate 150 0x61"
    by simp
  moreover have "dropWhile is_space (0x20 # replicate 150 0x61) = replicate 150 0x61"
    unfolding r using a s by simp
  ultimately show ?thesis
    by (simp add: trim_def)
qed

section \<open>The preview of a submitted text\<close>

lemmas handler_eval =
  handler_def analyze_route_def checkRateLimit_def clientIp_def initial_state_def cached_def
  RATE_LIMIT_WINDOW_def RATE_LIMIT_MAX_def CACHE_TTL_def trim_def is_space_def slice0_def
  substr_def threat_number_def toUpperCase_latin_def text_preview_eq js_Nil js_Cons Let_def

text \<open>
  C3, as stated, fails on these two inputs. The handler trims the text before it scores
  it, so for a text with a leading space the preview is not the beginning of the text as
  it was submitted; and a text of 150 letters and a final space is longer than 150
  characters, yet its preview carries no marker.
\<close>

theorem text_preview_untrimmed_counterexample:
  "map_option text_preview (response_analysis (fst (handler toLowerCase_latin
       \<lparr>now_rate = 1771329600000, now_check = 1771329600000, now_store = 1771329600000,
        date_analyzed = js ''2026-02-17T12:00:00.000Z'',
        date_detected = js ''2026-02-17T12:00:00.000Z'', hour = 12,
        random_log = js ''0.4fzyo82mvyr'', random_id = js ''0.9x3k1q7w2e5'',
        random_number = js ''0.c7d2m8t4b6n''\<rparr>
       \<lparr>url = js ''/analyze'', http_method = js ''POST'', x_forwarded_for = None,
        remoteAddress = Some (js ''127.0.0.1''), body = Text (js '' a'')\<rparr>
       (initial_state (js ''0.k3j2h1g0f9d'') (js ''0.a1b2c3d4e5f'')
        (js ''2026-02-17T11:59:00.000Z'') (js ''2026-02-17T11:59:00.000Z'')))))
     = Some (js ''a'') \<and>
   slice0 150 (js '' a'') \<noteq> js ''a'' \<and>
   map_option text_preview (response_analysis (fst (handler toLowerCase_latin
       \<lparr>now_rate = 1771329600000, now_check = 1771329600000, now_store = 1771329600000,
        date_analyzed = js ''2026-02-17T12:00:00.000Z'',
        date_detected = js ''2026-02-17T12:00:00.000Z'', hour = 12,
        random_log = js ''0.4fzyo82mvyr'', random_id = js ''0.9x3k1q7w2e5'',
        random_number = js ''0.c7d2m8t4b6n''\<rparr>
       \<lparr>url = js ''/analyze'', http_method = js ''POST'', x_forwarded_for = None,
        remoteAddress = Some (js ''127.0.0.1''), body = Text (replicate 150 0x61 @ [0x20])\<rparr>
       (initial_state (js ''0.k3j2h1g0f9d'') (js ''0.a1b2c3d4e5f'')
        (js ''2026-02-17T11:59:00.000Z'') (js ''2026-02-17T11:59:00.000Z'')))))
     = Some (replicate 150 0x61) \<and>
   length (replicate 150 (0x61 :: unit16) @ [0x20]) > 150"
proof -
  let ?h = "\<lparr>now_rate = 1771329600000, now_check = 1771329600000, now_store = 1771329600000,
        date_analyzed = js ''2026-02-17T12:00:00.000Z'',
        date_detected = js ''2026-02-17T12:00:00.000Z'', hour = 12,
        random_log = js ''0.4fzyo82mvyr'', random_id = js ''0.9x3k1q7w2e5'',
        random_number = js ''0.c7d2m8t4b6n''\<rparr>"
  let ?r2 = "\<lparr>url = js ''/analyze'', http_method = js ''POST'', x_forwarded_for = None,
        remoteAddress = Some (js ''127.0.0.1''), body = Text (replicate 150 0x61 @ [0x20])\<rparr>"
  let ?init = "(initial_state (js ''0.k3j2h1g0f9d'') (js ''0.a1b2c3d4e5f'')
        (js ''2026-02-17T11:59:00.000Z'') (js ''2026-02-17T11:59:00.000Z''))"
  have one: "map_option text_preview (response_analysis (fst (handler toLowerCase_latin ?h
       \<lparr>url = js ''/analyze'', http_method = js ''POST'', x_forwarded_for = None,
        remoteAddress = Some (js ''127.0.0.1''), body = Text (js '' a'')\<rparr>
       ?init))) = Some (js ''a'')"
    by (simp add: handler_eval)
  have two: "slice0 150 (js '' a'') \<noteq> js ''a''"
    by (simp add: slice0_def js_Nil js_Cons)
  have ok: "fst (checkRateLimit (now_rate ?h) (clientIp ?r2) (requestCounts ?init))"
    by (simp add: checkRateLimit_def clientIp_def initial_state_def RATE_LIMIT_WINDOW_def
          RATE_LIMIT_MAX_def Let_def)
  have three: "map_option text_preview (response_analysis (fst (handler toLowerCase_latin ?h ?r2
       ?init))) = Some (replicate 150 0x61)"
    using handler_analyze_response [of ?r2 "replicate 150 0x61 @ [0x20]" ?h ?init toLowerCase_latin]
      ok
    by (simp add: trim_long_input text_preview_eq)
  from one two three show ?thesis
    by simp
qed


text \<open>
  C3, amended. For every text that the analyze route scores, the preview of the analysis
  in the response is the first 150 characters of the trimmed text, with the marker \<open>...\<close>
  appended exactly when the trimmed text is longer than 150 characters.
\<close>

theorem text_preview_of_trimmed_input:
  "fst (handler lc h req st) = Analyzed i n a p \<Longrightarrow> body req = Text t \<Longrightarrow>
   text_preview a = take 150 (trim t) @ (if length (trim t) > 150 then js ''...'' else [])"
proof -
  assume r: "fst (handler lc h req st) = Analyzed i n a p" and b: "body req = Text t"
  from handler_Analyzed [OF r] obtain st'
    where "fst (analyze_route lc h (body req) st') = Analyzed i n a p" ..
  from analyze_route_Analyzed [OF this] b
  have a: "a = analyzeText lc (date_analyzed h) (take 5000 (trim t))"
    by auto
  show ?thesis
    unfolding a text_preview_eq by (simp add: min_def)
qed


text \<open>A request whose text has a space on either side.\<close>

theorem text_preview_of_trimmed_input_witness:
  "body \<lparr>url = js ''/analyze'', http_method = js ''POST'', x_forwarded_for = None,
        remoteAddress = Some (js ''127.0.0.1''), body = Text (js '' hi '')\<rparr> = Text (js '' hi '') \<and>
   trim (js '' hi '') = js ''hi'' \<and>
   map_option text_preview (response_analysis (fst (handler toLowerCase_latin
       \<lparr>now_rate = 1771329600000, now_check = 1771329600000, now_store = 1771329600000,
        date_analyzed = js ''2026-02-17T12:00:00.000Z'',
        date_detected = js ''2026-02-17T12:00:00.000Z'', hour = 12,
        random_log = js ''0.4fzyo82mvyr'', random_id = js ''0.9x3k1q7w2e5'',
        random_number = js ''0.c7d2m8t4b6n''\<rparr>
       \<lparr>url = js ''/analyze'', http_method = js ''POST'', x_forwarded_for = None,
        remoteAddress = Some (js ''127.0.0.1''), body = Text (js '' hi '')\<rparr>
       (initial_state (js ''0.k3j2h1g0f9d'') (js ''0.a1b2c3d4e5f'')
        (js ''2026-02-17T11:59:00.000Z'') (js ''2026-02-17T11:59:00.000Z'')))))
     = Some (js ''hi'')"
proof -
  let ?h = "\<lparr>now_rate = 1771329600000, now_check = 1771329600000, now_store = 1771329600000,
        date_analyzed = js ''2026-02-17T12:00:00.000Z'',
        date_detected = js ''2026-02-17T12:00:00.000Z'', hour = 12,
        random_log = js ''0.4fzyo82mvyr'', random_id = js ''0.9x3k1q7w2e5'',
        random_number = js ''0.c7d2m8t4b6n''\<rparr>"
  let ?req = "\<lparr>url = js ''/analyze'', http_method = js ''POST'', x_forwarded_for = None,
        remoteAddress = Some (js ''127.0.0.1''), body = Text (js '' hi '')\<rparr>"
  let ?st = "(initial_state (js ''0.k3j2h1g0f9d'') (js ''0.a1b2c3d4e5f'')
        (js ''2026-02-17T11:59:00.000Z'') (js ''2026-02-17T11:59:00.000Z''))"
  let ?a = "analyzeText toLowerCase_latin (date_analyzed ?h) (slice0 5000 (trim (js '' hi '')))"
  have r: "fst (handler toLowerCase_latin ?h ?req ?st) =
             Analyzed (substr 2 8 (random_id ?h)) (threat_number (random_number ?h)) ?a
               (calculateProbability (hour ?h) (if is_risk (threat_level ?a) then [?a] else []))"
    by (simp add: handler_def analyze_route_def checkRateLimit_def clientIp_def
          initial_state_def RATE_LIMIT_WINDOW_def RATE_LIMIT_MAX_def trim_def is_space_def
          js_Nil js_Cons Let_def)
  have b: "body ?req = Text (js '' hi '')"
    by simp
  have t: "trim (js '' hi '') = js ''hi''"
    by (simp add: trim_def is_space_def js_Nil js_Cons)
  from text_preview_of_trimmed_input [OF r b]
  have "text_preview ?a = js ''hi''"
    unfolding t by (simp add: js_Nil js_Cons)
  with r b t show ?thesis
    by simp
qed


section \<open>The identifier of a record\<close>

text \<open>
  C4 at the input where the code misses it. The identifier is meant to be \<open>N-\<close> and
  eight characters, but \<open>substr(2, 8)\<close> takes at most eight: when \<open>Math.random()\<close>
  returns \<open>0.5\<close>, its representation in base 36 is \<open>0.i\<close>, and the identifier of the
  response is \<open>N-I\<close>.
\<close>

theorem short_random_string_number:
  "threat_number (js ''0.i'') = js ''N-I'' \<and>
   response_number (fst (handler toLowerCase_latin
       \<lparr>now_rate = 1771329600000, now_check = 1771329600000, now_store = 1771329600000,
        date_analyzed = js ''2026-02-17T12:00:00.000Z'',
        date_detected = js ''2026-02-17T12:00:00.000Z'', hour = 12,
        random_log = js ''0.4fzyo82mvyr'', random_id = js ''0.9x3k1q7w2e5'',
        random_number = js ''0.i''\<rparr>
       \<lparr>url = js ''/analyze'', http_method = js ''POST'', x_forwarded_for = None,
        remoteAddress = Some (js ''127.0.0.1''), body = Text (js ''hello'')\<rparr>
       (initial_state (js ''0.k3j2h1g0f9d'') (js ''0.a1b2c3d4e5f'')
        (js ''2026-02-17T11:59:00.000Z'') (js ''2026-02-17T11:59:00.000Z''))))
     = Some (js ''N-I'')"
  by (simp add: handler_eval)

section \<open>The seeded log\<close>

lemma seeded_initial: "seeded (initial_state r1 r2 d1 d2)"
  by (simp add: seeded_def initial_state_def demoThreats_def is_risk_def)

lemma seeded_requestCounts: "seeded (st\<lparr>requestCounts := c\<rparr>) = seeded st"
  by (simp add: seeded_def)

lemma analyze_route_seeded: "seeded st \<Longrightarrow> seeded (snd (analyze_route lc h b st))"
  by (cases b) (auto simp: analyze_route_def Let_def seeded_def split: if_splits)

lemma risk_count_pos:
  "list_ex (\<lambda>t. is_risk (logged_level (analysis t))) entries \<Longrightarrow>
   citywide_risk (prediction_of entries) = js ''elevated''"
proof -
  assume "list_ex (\<lambda>t. is_risk (logged_level (analysis t))) entries"
  then have "filter (\<lambda>t. is_risk (logged_level (analysis t))) entries \<noteq> []"
    by (simp add: filter_empty_conv list_ex_iff)
  then show ?thesis
    by (simp add: prediction_of_def Let_def)
qed

lemma cached_Some: "cached h entry = Some d \<Longrightarrow> \<exists>ts. entry = Some (d, ts)"
  by (auto simp: cached_def split: option.splits if_splits)

lemma handler_seeded: "seeded st \<Longrightarrow> seeded (snd (handler lc h req st))"
proof (cases "url req = js ''/analyze''")
  case True
  assume s: "seeded st"
  obtain ok counts
    where c: "checkRateLimit (now_rate h) (clientIp req) (requestCounts st) = (ok, counts)"
    by (cases "checkRateLimit (now_rate h) (clientIp req) (requestCounts st)")
  have s': "seeded (st\<lparr>requestCounts := counts\<rparr>)"
    using s by (simp add: seeded_requestCounts)
  show ?thesis
    unfolding handler_analyze_path [OF True] c
    using s' analyze_route_seeded [OF s', of lc h "body req"] by simp
next
  case False
  assume s: "seeded st"
  have st: "seeded (st\<lparr>cache_stats := Some (statistics_of (threatLog st), now_store h)\<rparr>)"
    using s by (simp add: seeded_def statistics_of_def)
  have th: "seeded (st\<lparr>cache_threats := Some (threats_of (threatLog st), now_store h)\<rparr>)"
    using s by (simp add: seeded_def)
  have pr: "seeded (st\<lparr>cache_pred := Some (prediction_of (threatLog st), now_store h)\<rparr>)"
    using s by (simp add: seeded_def risk_count_pos)
  show ?thesis
    unfolding handler_other_path [OF False]
    using s st th pr by (simp split: option.splits)
qed

lemma serve_seeded: "seeded st \<Longrightarrow> seeded (serve lc reqs st)"
  by (induction reqs arbitrary: st) (auto simp: handler_seeded)

lemma analyze_route_not_read:
  "fst (analyze_route lc h b st) \<noteq> Statistics sd"
  "fst (analyze_route lc h b st) \<noteq> Prediction pd"
  by (cases b; simp add: analyze_route_def Let_def)+

lemma handler_Statistics:
  "seeded st \<Longrightarrow> fst (handler lc h req st) = Statistics d \<Longrightarrow> 2 \<le> total_threats d"
proof (cases "url req = js ''/analyze''")
  case True
  assume r: "fst (handler lc h req st) = Statistics d"
  obtain ok counts
    where c: "checkRateLimit (now_rate h) (clientIp req) (requestCounts st) = (ok, counts)"
    by (cases "checkRateLimit (now_rate h) (clientIp req) (requestCounts st)")
  from r have False
    unfolding handler_analyze_path [OF True] c
    by (simp add: analyze_route_not_read split: if_splits)
  then show ?thesis ..
next
  case False
  assume s: "seeded st" and r: "fst (handler lc h req st) = Statistics d"
  have "fst (handler lc h req st) = Statistics d \<longrightarrow>
          cached h (cache_stats st) = Some d \<or> d = statistics_of (threatLog st)"
    unfolding handler_other_path [OF False]
    by (simp split: option.split)
  then have "cached h (cache_stats st) = Some d \<or> d = statistics_of (threatLog st)"
    by (rule mp [OF _ r])
  then show ?thesis
  proof
    assume "cached h (cache_stats st) = Some d"
    from cached_Some [OF this] obtain ts where "cache_stats st = Some (d, ts)" ..
    with s show ?thesis by (simp add: seeded_def)
  next
    assume "d = statistics_of (threatLog st)"
    with s show ?thesis by (simp add: seeded_def statistics_of_def)
  qed
qed

lemma handler_Prediction:
  "seeded st \<Longrightarrow> fst (handler lc h req st) = Prediction d \<Longrightarrow>
   citywide_risk d = js ''elevated''"
proof (cases "url req = js ''/analyze''")
  case True
  assume r: "fst (handler lc h req st) = Prediction d"
  obtain ok counts
    where c: "checkRateLimit (now_rate h) (clientIp req) (requestCounts st) = (ok, counts)"
    by (cases "checkRateLimit (now_rate h) (clientIp req) (requestCounts st)")
  from r have False
    unfolding handler_analyze_path [OF True] c
    by (simp add: analyze_route_not_read split: if_splits)
  then show ?thesis ..
next
  case False
  assume s: "seeded st" and r: "fst (handler lc h req st) = Prediction d"
  have "fst (handler lc h req st) = Prediction d \<longrightarrow>
          cached h (cache_pred st) = Some d \<or> d = prediction_of (threatLog st)"
    unfolding handler_other_path [OF False]
    by (simp split: option.split)
  then have "cached h (cache_pred st) = Some d \<or> d = prediction_of (threatLog st)"
    by (rule mp [OF _ r])
  then show ?thesis
  proof
    assume "cached h (cache_pred st) = Some d"
    from cached_Some [OF this] obtain ts where "cache_pred st = Some (d, ts)" ..
    with s show ?thesis by (simp add: seeded_def)
  next
    assume "d = prediction_of (threatLog st)"
    with s show ?thesis by (simp add: seeded_def risk_count_pos)
  qed
qed

text \<open>
  C9. The log starts with the two seeded records, one critical and one high, and the
  handler only appends to it. So after any sequence of requests the log is not empty,
  every statistics response reports at least two threats and every prediction response
  reports an elevated citywide risk, from the cache or not, and before any text was
  submitted.
\<close>

theorem seeded_log_never_empty:
  "map (\<lambda>t. logged_level (analysis t)) (threatLog (initial_state r1 r2 d1 d2))
     = [critical, high] \<and>
   threatLog (serve lc reqs (initial_state r1 r2 d1 d2)) \<noteq> [] \<and>
   (fst (handler lc h req (serve lc reqs (initial_state r1 r2 d1 d2))) = Statistics sd \<longrightarrow>
      2 \<le> total_threats sd) \<and>
   (fst (handler lc h req (serve lc reqs (initial_state r1 r2 d1 d2))) = Prediction pd \<longrightarrow>
      citywide_risk pd = js ''elevated'')"
proof -
  have s: "seeded (serve lc reqs (initial_state r1 r2 d1 d2))"
    by (rule serve_seeded [OF seeded_initial])
  have l: "map (\<lambda>t. logged_level (analysis t)) (threatLog (initial_state r1 r2 d1 d2))
     = [critical, high]"
    by (simp add: initial_state_def demoThreats_def)
  from s have ne: "threatLog (serve lc reqs (initial_state r1 r2 d1 d2)) \<noteq> []"
    by (auto simp: seeded_def)
  from l ne handler_Statistics [OF s] handler_Prediction [OF s] show ?thesis
    by blast
qed


text \<open>The two read routes on the state the module starts in.\<close>

theorem seeded_log_never_empty_witness:
  "fst (handler toLowerCase_latin
       \<lparr>now_rate = 1771329600000, now_check = 1771329600000, now_store = 1771329600000,
        date_analyzed = js ''2026-02-17T12:00:00.000Z'',
        date_detected = js ''2026-02-17T12:00:00.000Z'', hour = 12,
        random_log = js ''0.4fzyo82mvyr'', random_id = js ''0.9x3k1q7w2e5'',
        random_number = js ''0.c7d2m8t4b6n''\<rparr>
       \<lparr>url = js ''/statistics'', http_method = js ''GET'', x_forwarded_for = None,
        remoteAddress = Some (js ''127.0.0.1''), body = No_text\<rparr>
       (serve toLowerCase_latin [] (initial_state (js ''0.k3j2h1g0f9d'') (js ''0.a1b2c3d4e5f'')
        (js ''2026-02-17T11:59:00.000Z'') (js ''2026-02-17T11:59:00.000Z''))))
     = Statistics (statistics_of (threatLog (initial_state (js ''0.k3j2h1g0f9d'') (js ''0.a1b2c3d4e5f'')
        (js ''2026-02-17T11:59:00.000Z'') (js ''2026-02-17T11:59:00.000Z'')))) \<and>
   2 \<le> total_threats (statistics_of (threatLog (initial_state (js ''0.k3j2h1g0f9d'') (js ''0.a1b2c3d4e5f'')
        (js ''2026-02-17T11:59:00.000Z'') (js ''2026-02-17T11:59:00.000Z'')))) \<and>
   fst (handler toLowerCase_latin
       \<lparr>now_rate = 1771329600000, now_check = 1771329600000, now_store = 1771329600000,
        date_analyzed = js ''2026-02-17T12:00:00.000Z'',
        date_detected = js ''2026-02-17T12:00:00.000Z'', hour = 12,
        random_log = js ''0.4fzyo82mvyr'', random_id = js ''0.9x3k1q7w2e5'',
        random_number = js ''0.c7d2m8t4b6n''\<rparr>
       \<lparr>url = js ''/prediction'', http_method = js ''GET'', x_forwarded_for = None,
        remoteAddress = Some (js ''127.0.0.1''), body = No_text\<rparr>
       (serve toLowerCase_latin [] (initial_state (js ''0.k3j2h1g0f9d'') (js ''0.a1b2c3d4e5f'')
        (js ''2026-02-17T11:59:00.000Z'') (js ''2026-02-17T11:59:00.000Z''))))
     = Prediction (prediction_of (threatLog (initial_state (js ''0.k3j2h1g0f9d'') (js ''0.a1b2c3d4e5f'')
        (js ''2026-02-17T11:59:00.000Z'') (js ''2026-02-17T11:59:00.000Z'')))) \<and>
   citywide_risk (prediction_of (threatLog (initial_state (js ''0.k3j2h1g0f9d'') (js ''0.a1b2c3d4e5f'')
        (js ''2026-02-17T11:59:00.000Z'') (js ''2026-02-17T11:59:00.000Z'')))) = js ''elevated''"
proof -
  let ?h = "\<lparr>now_rate = 1771329600000, now_check = 1771329600000, now_store = 1771329600000,
        date_analyzed = js ''2026-02-17T12:00:00.000Z'',
        date_detected = js ''2026-02-17T12:00:00.000Z'', hour = 12,
        random_log = js ''0.4fzyo82mvyr'', random_id = js ''0.9x3k1q7w2e5'',
        random_number = js ''0.c7d2m8t4b6n''\<rparr>"
  let ?rs = "\<lparr>url = js ''/statistics'', http_method = js ''GET'', x_forwarded_for = None,
        remoteAddress = Some (js ''127.0.0.1''), body = No_text\<rparr>"
  let ?rp = "\<lparr>url = js ''/prediction'', http_method = js ''GET'', x_forwarded_for = None,
        remoteAddress = Some (js ''127.0.0.1''), body = No_text\<rparr>"
  let ?init = "(initial_state (js ''0.k3j2h1g0f9d'') (js ''0.a1b2c3d4e5f'')
        (js ''2026-02-17T11:59:00.000Z'') (js ''2026-02-17T11:59:00.000Z''))"
  have s: "fst (handler toLowerCase_latin ?h ?rs (serve toLowerCase_latin [] ?init))
             = Statistics (statistics_of (threatLog ?init))"
    by (simp add: handler_def cached_def initial_state_def js_Nil js_Cons Let_def)
  have p: "fst (handler toLowerCase_latin ?h ?rp (serve toLowerCase_latin [] ?init))
             = Prediction (prediction_of (threatLog ?init))"
    by (simp add: handler_def cached_def initial_state_def js_Nil js_Cons Let_def)
  note c = seeded_log_never_empty [of "js ''0.k3j2h1g0f9d''" "js ''0.a1b2c3d4e5f''"
      "js ''2026-02-17T11:59:00.000Z''" "js ''2026-02-17T11:59:00.000Z''" toLowerCase_latin "[]"
      ?h]
  from c [of ?rs "statistics_of (threatLog ?init)"] s
  have a: "2 \<le> total_threats (statistics_of (threatLog ?init))"
    by blast
  from c [of ?rp _ "prediction_of (threatLog ?init)"] p
  have b: "citywide_risk (prediction_of (threatLog ?init)) = js ''elevated''"
    by blast
  from s a p b show ?thesis
    by blast
qed

end
